theory Spec2Isabelle
  imports Complex_Main "HOL-Library.Multiset" "HOL-Library.Char_ord" "HOL-Library.List_Lexorder"
begin

text \<open>
  A shallow embedding of the video converter: the language selection, the track order and
  the synthesis of the encoder command (\<^verbatim>\<open>utils.py\<close>, \<^verbatim>\<open>converter.py\<close>), the parser of the
  encoder's status lines, one conversion and the batch run against an explicit model of
  the file system, the prober and the encoder, and the configuration of \<^verbatim>\<open>config.py\<close> as a
  record. The definitions come first; the properties of the program follow them.
\<close>

section \<open>Python strings\<close>

text \<open>
  Strings are byte lists; the tags and status lines of the program are UTF-8 text.
  \<open>lower\<close> is \<^verbatim>\<open>str.lower()\<close> on the ASCII letters. Bytes of a multi-byte character are
  left alone: no such byte is an ASCII letter, and the only non-ASCII characters that Python
  lowers to an ASCII letter give \<open>i\<close> or \<open>k\<close>, neither of which occurs in a language alias or
  in the words \<open>error\<close> and \<open>invalid\<close>.
\<close>

definition lower_char :: "char \<Rightarrow> char" where
  "lower_char c =
     (case map_of (zip ''ABCDEFGHIJKLMNOPQRSTUVWXYZ'' ''abcdefghijklmnopqrstuvwxyz'') c of
        Some d \<Rightarrow> d
      | None \<Rightarrow> c)"

definition lower :: "string \<Rightarrow> string" where
  "lower s = map lower_char s"

definition startswith :: "string \<Rightarrow> string \<Rightarrow> bool" where
  "startswith s p = (take (length p) s = p)"

text \<open>\<open>str_contains sub s\<close> is Python's \<^verbatim>\<open>sub in s\<close>: \<open>sub\<close> occurs in \<open>s\<close> as a substring.\<close>

fun str_contains :: "string \<Rightarrow> string \<Rightarrow> bool" where
  "str_contains sub [] = (sub = [])"
| "str_contains sub (c # cs) = (startswith (c # cs) sub \<or> str_contains sub cs)"

text \<open>\<^verbatim>\<open>any(code in s for code in codes)\<close>\<close>

definition any_in :: "string list \<Rightarrow> string \<Rightarrow> bool" where
  "any_in codes s = list_ex (\<lambda>code. str_contains code s) codes"

text \<open>\<^verbatim>\<open>str(n)\<close> for an integer.\<close>

definition digit_char :: "nat \<Rightarrow> char" where
  "digit_char d = ''0123456789'' ! d"

fun str_nat :: "nat \<Rightarrow> string" where
  "str_nat n = (if n < 10 then [digit_char n] else str_nat (n div 10) @ [digit_char (n mod 10)])"

declare str_nat.simps [simp del]

definition str_int :: "int \<Rightarrow> string" where
  "str_int i = (if i < 0 then CHR ''-'' # str_nat (nat (- i)) else str_nat (nat i))"

text \<open>\<^verbatim>\<open>d.get(k, default)\<close>\<close>

definition dict_get :: "('k \<rightharpoonup> 'v) \<Rightarrow> 'k \<Rightarrow> 'v \<Rightarrow> 'v" where
  "dict_get d k dflt = (case d k of Some v \<Rightarrow> v | None \<Rightarrow> dflt)"


section \<open>Exceptions\<close>

text \<open>
  A function that can raise returns \<open>Inl\<close> of the exception instead of its value.
  \<open>CalledProcessError\<close> and \<open>JSONDecodeError\<close> are what the prober's subprocess call and
  \<^verbatim>\<open>json.loads\<close> raise; \<open>OSError\<close> stands for every failure of the operating system.
\<close>

datatype py_error =
  IndexError | KeyError | ZeroDivisionError | ValueError | RuntimeError | OSError
  | CalledProcessError | JSONDecodeError


section \<open>Logging\<close>

text \<open>
  Every function that receives the logger returns the records it emits, in order, next to
  its value. A record is its level and the text of the message as the source writes it;
  the values an f-string interpolates are not filled in.
\<close>

datatype level = DEBUG | INFO | WARNING | ERROR

type_synonym log = "(level \<times> string) list"


section \<open>Configuration (config.py)\<close>

record quality_preset =
  preset_crf :: int
  preset_name :: string

record config =
  OUTPUT_DIR :: string
  SUPPORTED_FORMATS :: "string list"
  VIDEO_CODEC :: string
  VIDEO_PRESET :: string
  VIDEO_CRF :: int
  PIXEL_FORMAT :: string
  AUDIO_CODEC :: string
  AUDIO_BITRATE :: string
  AUDIO_CHANNELS :: int
  MOVFLAGS :: string
  FRENCH_LANGUAGE_CODES :: "string list"
  QUALITY_PRESETS :: "string \<rightharpoonup> quality_preset"
  USE_GPU_ACCELERATION :: bool
  GPU_ENCODER :: string
  INCLUDE_SUBTITLES :: bool
  SUBTITLE_CODEC :: string
  OUTPUT_SUFFIX :: string

definition default_config :: config where
  "default_config =
     \<lparr> OUTPUT_DIR = ''output'',
       SUPPORTED_FORMATS = [''.mkv'', ''.avi''],
       VIDEO_CODEC = ''libx264'',
       VIDEO_PRESET = ''medium'',
       VIDEO_CRF = 23,
       PIXEL_FORMAT = ''yuv420p'',
       AUDIO_CODEC = ''aac'',
       AUDIO_BITRATE = ''192k'',
       AUDIO_CHANNELS = 2,
       MOVFLAGS = ''+faststart'',
       FRENCH_LANGUAGE_CODES = [''fra'', ''fre'', ''fr'', ''french''],
       QUALITY_PRESETS =
         [''high'' \<mapsto> \<lparr>preset_crf = 18, preset_name = ''slow''\<rparr>,
          ''balanced'' \<mapsto> \<lparr>preset_crf = 23, preset_name = ''medium''\<rparr>,
          ''compressed'' \<mapsto> \<lparr>preset_crf = 28, preset_name = ''fast''\<rparr>],
       USE_GPU_ACCELERATION = False,
       GPU_ENCODER = ''h264_videotoolbox'',
       INCLUDE_SUBTITLES = True,
       SUBTITLE_CODEC = ''mov_text'',
       OUTPUT_SUFFIX = ''_converted'' \<rparr>"


section \<open>Probe data\<close>

text \<open>
  A stream of the prober's output is a dictionary; the program reads its keys
  \<^verbatim>\<open>codec_type\<close> and \<^verbatim>\<open>tags\<close>, either of which may be missing. The tags are a dictionary from
  tag names to strings.
\<close>

record stream =
  codec_type :: "string option"
  tags :: "(string \<rightharpoonup> string) option"

text \<open>\<^verbatim>\<open>stream.get('tags', {})\<close>\<close>

definition stream_tags :: "stream \<Rightarrow> (string \<rightharpoonup> string)" where
  "stream_tags s = (case tags s of Some t \<Rightarrow> t | None \<Rightarrow> Map.empty)"


section \<open>Language selection (utils.py)\<close>

text \<open>
  \<^verbatim>\<open>find_french_audio_stream\<close>: the loop over \<^verbatim>\<open>enumerate(audio_streams)\<close>, with the index
  of the stream at the head of the remaining list.
\<close>

fun find_french_audio_loop :: "config \<Rightarrow> nat \<Rightarrow> stream list \<Rightarrow> nat option \<times> log" where
  "find_french_audio_loop cfg idx [] = (None, [(WARNING, ''No French audio stream found'')])"
| "find_french_audio_loop cfg idx (s # rest) =
     (let tgs = stream_tags s;
          language = lower (dict_get tgs ''language'' '''');
          title = lower (dict_get tgs ''title'' '''');
          lg = [(DEBUG, ''Audio stream {idx}: language='{language}', title='{title}'' @ [CHR 0x27])]
      in if any_in (FRENCH_LANGUAGE_CODES cfg) language
         then (Some idx,
               lg @ [(INFO, ''Found French audio stream at index {idx} (language: {language})'')])
         else if any_in (FRENCH_LANGUAGE_CODES cfg) title
         then (Some idx,
               lg @ [(INFO, ''Found French audio stream at index {idx} (title: {title})'')])
         else (case find_french_audio_loop cfg (Suc idx) rest of
                 (r, lg') \<Rightarrow> (r, lg @ lg')))"

definition find_french_audio_stream :: "config \<Rightarrow> stream list \<Rightarrow> nat option \<times> log" where
  "find_french_audio_stream cfg audio_streams = find_french_audio_loop cfg 0 audio_streams"

fun find_french_subtitle_loop :: "config \<Rightarrow> nat \<Rightarrow> stream list \<Rightarrow> nat option \<times> log" where
  "find_french_subtitle_loop cfg idx [] = (None, [(DEBUG, ''No French subtitle stream found'')])"
| "find_french_subtitle_loop cfg idx (s # rest) =
     (let tgs = stream_tags s;
          language = lower (dict_get tgs ''language'' '''');
          title = lower (dict_get tgs ''title'' '''');
          lg = [(DEBUG, ''Subtitle stream {idx}: language='{language}', title='{title}'' @ [CHR 0x27])]
      in if any_in (FRENCH_LANGUAGE_CODES cfg) language
         then (Some idx,
               lg @ [(INFO, ''Found French subtitle stream at index {idx} (language: {language})'')])
         else if any_in (FRENCH_LANGUAGE_CODES cfg) title
         then (Some idx,
               lg @ [(INFO, ''Found French subtitle stream at index {idx} (title: {title})'')])
         else (case find_french_subtitle_loop cfg (Suc idx) rest of
                 (r, lg') \<Rightarrow> (r, lg @ lg')))"

definition find_french_subtitle_stream :: "config \<Rightarrow> stream list \<Rightarrow> nat option \<times> log" where
  "find_french_subtitle_stream cfg subtitle_streams =
     find_french_subtitle_loop cfg 0 subtitle_streams"


section \<open>Track order (utils.py, converter.py)\<close>

text \<open>
  The loop \<^verbatim>\<open>for idx in range(len(audio_streams)): if idx != french_idx: mapping.append(idx)\<close>
  of \<^verbatim>\<open>get_audio_mapping\<close>, over the remaining indices of the range.
\<close>

fun audio_mapping_loop :: "nat \<Rightarrow> nat list \<Rightarrow> nat list \<Rightarrow> nat list" where
  "audio_mapping_loop french_idx [] mapping = mapping"
| "audio_mapping_loop french_idx (idx # rest) mapping =
     audio_mapping_loop french_idx rest (if idx \<noteq> french_idx then mapping @ [idx] else mapping)"

definition get_audio_mapping :: "config \<Rightarrow> stream list \<Rightarrow> nat list \<times> log" where
  "get_audio_mapping cfg audio_streams =
     (if audio_streams = [] then ([], [(WARNING, ''No audio streams found'')])
      else case find_french_audio_stream cfg audio_streams of
        (None, lg) \<Rightarrow>
          ([0..<length audio_streams], lg @ [(INFO, ''Using original audio stream order'')])
      | (Some french_idx, lg) \<Rightarrow>
          (audio_mapping_loop french_idx [0..<length audio_streams] [french_idx],
           lg @ [(INFO, ''Audio mapping order: {mapping} (French audio at position 0)'')]))"

text \<open>
  The subtitle order is planned inside \<^verbatim>\<open>build_ffmpeg_command\<close> (the block that fills
  \<^verbatim>\<open>subtitle_mapping\<close>), with a loop of its own.
\<close>

fun subtitle_mapping_loop :: "nat \<Rightarrow> nat list \<Rightarrow> nat list \<Rightarrow> nat list" where
  "subtitle_mapping_loop french_sub_idx [] subtitle_mapping = subtitle_mapping"
| "subtitle_mapping_loop french_sub_idx (idx # rest) subtitle_mapping =
     subtitle_mapping_loop french_sub_idx rest
       (if idx \<noteq> french_sub_idx then subtitle_mapping @ [idx] else subtitle_mapping)"

definition get_subtitle_mapping :: "config \<Rightarrow> stream list \<Rightarrow> nat list \<times> log" where
  "get_subtitle_mapping cfg subtitle_streams =
     (case find_french_subtitle_stream cfg subtitle_streams of
        (Some french_sub_idx, lg) \<Rightarrow>
          (subtitle_mapping_loop french_sub_idx [0..<length subtitle_streams] [french_sub_idx], lg)
      | (None, lg) \<Rightarrow> ([0..<length subtitle_streams], lg))"


section \<open>Stream classification (utils.py)\<close>

text \<open>
  The prober's output is a dictionary; the program reads \<^verbatim>\<open>streams\<close> (a list of streams) and
  \<^verbatim>\<open>format\<close> (a dictionary, of which it reads \<^verbatim>\<open>duration\<close>, a string). Either may be missing.
\<close>

record probe_data =
  streams :: "stream list option"
  format :: "(string \<rightharpoonup> string) option"

text \<open>The loop of \<^verbatim>\<open>get_streams_info\<close>, with the three lists it appends to.\<close>

fun get_streams_loop ::
  "stream list \<Rightarrow> stream list \<times> stream list \<times> stream list
     \<Rightarrow> stream list \<times> stream list \<times> stream list" where
  "get_streams_loop [] acc = acc"
| "get_streams_loop (s # rest) (video_streams, audio_streams, subtitle_streams) =
     (let ct = (case codec_type s of Some t \<Rightarrow> t | None \<Rightarrow> '''')
      in if ct = ''video''
         then get_streams_loop rest (video_streams @ [s], audio_streams, subtitle_streams)
         else if ct = ''audio''
         then get_streams_loop rest (video_streams, audio_streams @ [s], subtitle_streams)
         else if ct = ''subtitle''
         then get_streams_loop rest (video_streams, audio_streams, subtitle_streams @ [s])
         else get_streams_loop rest (video_streams, audio_streams, subtitle_streams))"

definition get_streams_info ::
  "probe_data \<Rightarrow> (stream list \<times> stream list \<times> stream list) \<times> log" where
  "get_streams_info pd =
     (get_streams_loop (case streams pd of Some ss \<Rightarrow> ss | None \<Rightarrow> []) ([], [], []),
      [(INFO, ''Found {len(video_streams)} video, {len(audio_streams)} audio, {len(subtitle_streams)} subtitle streams'')])"


section \<open>Command synthesis (converter.py)\<close>

text \<open>The converter object: the two fields that \<^verbatim>\<open>__init__\<close> sets beside the logger.\<close>

record converter =
  crf :: int
  preset :: string

definition VideoConverter :: "config \<Rightarrow> int option \<Rightarrow> string option \<Rightarrow> converter" where
  "VideoConverter cfg crf_arg preset_arg =
     \<lparr> crf = (case crf_arg of Some c \<Rightarrow> c | None \<Rightarrow> VIDEO_CRF cfg),
       preset = (case preset_arg of Some p \<Rightarrow> p | None \<Rightarrow> VIDEO_PRESET cfg) \<rparr>"

text \<open>The video encoding settings: the branch on \<^verbatim>\<open>config.USE_GPU_ACCELERATION\<close>.\<close>

definition video_settings :: "config \<Rightarrow> converter \<Rightarrow> string list \<times> log \<Rightarrow> string list \<times> log" where
  "video_settings cfg self st =
     (case st of (cmd, lg) \<Rightarrow>
        if USE_GPU_ACCELERATION cfg
        then (cmd @ [''-c:v'', GPU_ENCODER cfg],
              lg @ [(INFO, ''Using GPU acceleration: {config.GPU_ENCODER}'')])
        else (((cmd @ [''-c:v'', VIDEO_CODEC cfg]) @ [''-preset'', preset self])
                @ [''-crf'', str_int (crf self)],
              lg))"

text \<open>The first loop over \<^verbatim>\<open>enumerate(audio_mapping)\<close>: one \<^verbatim>\<open>-map\<close> per audio stream.\<close>

fun audio_map_loop :: "nat list \<Rightarrow> string list \<Rightarrow> string list" where
  "audio_map_loop [] cmd = cmd"
| "audio_map_loop (input_idx # rest) cmd =
     audio_map_loop rest (cmd @ [''-map'', ''0:a:'' @ str_nat input_idx])"

text \<open>
  The second loop over \<^verbatim>\<open>enumerate(audio_mapping)\<close>: the language and title of each mapped
  stream. \<^verbatim>\<open>audio_streams[input_idx]\<close> raises \<^verbatim>\<open>IndexError\<close> out of range.
\<close>

fun audio_metadata_loop ::
  "stream list \<Rightarrow> nat \<Rightarrow> nat list \<Rightarrow> string list \<times> log \<Rightarrow> py_error + string list \<times> log" where
  "audio_metadata_loop audio_streams output_idx [] st = Inr st"
| "audio_metadata_loop audio_streams output_idx (input_idx # rest) (cmd, lg) =
     (if input_idx < length audio_streams
      then
        let original_stream = audio_streams ! input_idx;
            tgs = stream_tags original_stream;
            language = dict_get tgs ''language'' '''';
            title = dict_get tgs ''title'' '''';
            st1 = (if language \<noteq> ''''
                   then (cmd @ [''-metadata:s:a:'' @ str_nat output_idx, ''language='' @ language],
                         lg @ [(DEBUG, ''Audio track {output_idx}: language={language}'')])
                   else (cmd, lg));
            st2 = (if title \<noteq> ''''
                   then (fst st1 @ [''-metadata:s:a:'' @ str_nat output_idx, ''title='' @ title],
                         snd st1 @ [(DEBUG, ''Audio track {output_idx}: title={title}'')])
                   else st1)
        in audio_metadata_loop audio_streams (Suc output_idx) rest st2
      else Inl IndexError)"

text \<open>The audio block: \<^verbatim>\<open>if audio_streams: ...\<close>\<close>

definition audio_block ::
  "config \<Rightarrow> stream list \<Rightarrow> string list \<times> log \<Rightarrow> py_error + string list \<times> log" where
  "audio_block cfg audio_streams st =
     (case st of (cmd, lg) \<Rightarrow>
        if audio_streams \<noteq> []
        then (case get_audio_mapping cfg audio_streams of (audio_mapping, lg_m) \<Rightarrow>
                audio_metadata_loop audio_streams 0 audio_mapping
                  (audio_map_loop audio_mapping cmd @ [''-disposition:a:0'', ''default''],
                   lg @ lg_m))
        else Inr (cmd, lg))"

text \<open>The loop over \<^verbatim>\<open>enumerate(subtitle_mapping)\<close>.\<close>

fun subtitle_loop ::
  "config \<Rightarrow> stream list \<Rightarrow> nat \<Rightarrow> nat list \<Rightarrow> string list \<times> log
     \<Rightarrow> py_error + string list \<times> log" where
  "subtitle_loop cfg subtitle_streams output_idx [] st = Inr st"
| "subtitle_loop cfg subtitle_streams output_idx (input_idx # rest) (cmd, lg) =
     (let cmd1 = (cmd @ [''-map'', ''0:s:'' @ str_nat input_idx]) @ [''-c:s'', SUBTITLE_CODEC cfg];
          cmd2 = (if output_idx = 0 then cmd1 @ [''-disposition:s:0'', ''default''] else cmd1)
      in if input_idx < length subtitle_streams
         then
           let original_stream = subtitle_streams ! input_idx;
               tgs = stream_tags original_stream;
               language = dict_get tgs ''language'' '''';
               title = dict_get tgs ''title'' '''';
               st1 = (if language \<noteq> ''''
                      then (cmd2 @ [''-metadata:s:s:'' @ str_nat output_idx, ''language='' @ language],
                            lg @ [(DEBUG, ''Subtitle track {output_idx}: language={language}'')])
                      else (cmd2, lg));
               st2 = (if title \<noteq> ''''
                      then (fst st1 @ [''-metadata:s:s:'' @ str_nat output_idx, ''title='' @ title],
                            snd st1 @ [(DEBUG, ''Subtitle track {output_idx}: title={title}'')])
                      else st1)
           in subtitle_loop cfg subtitle_streams (Suc output_idx) rest st2
         else Inl IndexError)"

text \<open>The subtitle block: \<^verbatim>\<open>if config.INCLUDE_SUBTITLES and subtitle_streams: ...\<close>\<close>

definition subtitle_block ::
  "config \<Rightarrow> stream list \<Rightarrow> string list \<times> log \<Rightarrow> py_error + string list \<times> log" where
  "subtitle_block cfg subtitle_streams st =
     (case st of (cmd, lg) \<Rightarrow>
        if INCLUDE_SUBTITLES cfg \<and> subtitle_streams \<noteq> []
        then (case get_subtitle_mapping cfg subtitle_streams of (subtitle_mapping, lg_m) \<Rightarrow>
                subtitle_loop cfg subtitle_streams 0 subtitle_mapping (cmd, lg @ lg_m))
        else Inr (cmd, lg))"

definition build_ffmpeg_command ::
  "config \<Rightarrow> converter \<Rightarrow> string \<Rightarrow> string \<Rightarrow> probe_data \<Rightarrow> py_error + string list \<times> log" where
  "build_ffmpeg_command cfg self input_path output_path pd =
     (case get_streams_info pd of ((video_streams, audio_streams, subtitle_streams), lg0) \<Rightarrow>
        let st1 = video_settings cfg self ([''ffmpeg'', ''-i'', input_path], lg0);
            cmd2 = (((fst st1 @ [''-pix_fmt'', PIXEL_FORMAT cfg])
                      @ [''-c:a'', AUDIO_CODEC cfg])
                      @ [''-b:a'', AUDIO_BITRATE cfg])
                      @ [''-ac'', str_int (AUDIO_CHANNELS cfg)];
            st3 = (if video_streams \<noteq> []
                   then (cmd2 @ [''-map'', ''0:v:0''], snd st1)
                   else (cmd2, snd st1 @ [(WARNING, ''No video stream found!'')]))
        in case audio_block cfg audio_streams st3 of
             Inl e \<Rightarrow> Inl e
           | Inr st4 \<Rightarrow>
               (case subtitle_block cfg subtitle_streams st4 of
                  Inl e \<Rightarrow> Inl e
                | Inr (cmd5, lg5) \<Rightarrow>
                    Inr ((((cmd5 @ [''-movflags'', MOVFLAGS cfg])
                            @ [''-map_metadata'', ''0''])
                            @ [''-y''])
                            @ [output_path],
                         lg5)))"


section \<open>Progress parsing (converter.py)\<close>

text \<open>
  The status lines of the encoder are ASCII text: \<^verbatim>\<open>\d\<close> is a decimal digit and \<^verbatim>\<open>\s\<close> one of
  the ASCII whitespace characters. Floats are the real numbers they denote.
\<close>

definition is_digit :: "char \<Rightarrow> bool" where
  "is_digit c = (c \<in> set ''0123456789'')"

definition is_space :: "char \<Rightarrow> bool" where
  "is_space c =
     (c \<in> set [CHR 0x09, CHR 0x0A, CHR 0x0B, CHR 0x0C, CHR 0x0D,
               CHR 0x1C, CHR 0x1D, CHR 0x1E, CHR 0x1F, CHR '' ''])"

definition digit_val :: "char \<Rightarrow> nat" where
  "digit_val c =
     (case map_of (zip ''0123456789'' [0, 1, 2, 3, 4, 5, 6, 7, 8, 9]) c of
        Some d \<Rightarrow> d
      | None \<Rightarrow> 0)"

text \<open>\<^verbatim>\<open>int(s)\<close> for a string of digits.\<close>

definition py_int :: "string \<Rightarrow> int" where
  "py_int s = int (foldl (\<lambda>n c. 10 * n + digit_val c) 0 s)"

text \<open>\<^verbatim>\<open>float(s)\<close> for digits, optionally followed by a point and more digits.\<close>

definition py_float :: "string \<Rightarrow> real" where
  "py_float s =
     (let whole = takeWhile is_digit s;
          frac = drop 1 (dropWhile is_digit s)
      in real_of_int (py_int whole) + real_of_int (py_int frac) / 10 ^ length frac)"

text \<open>
  \<^verbatim>\<open>re.search\<close>: the match at the leftmost position of the string where the pattern matches.
  The three patterns of \<^verbatim>\<open>parse_progress\<close> are sequences of literals and greedy runs of one
  character class, each run followed by a character outside its class, so the match at a
  position is found by taking every run as long as it goes.
\<close>

fun re_search :: "(string \<Rightarrow> 'a option) \<Rightarrow> string \<Rightarrow> 'a option" where
  "re_search m [] = m []"
| "re_search m (c # cs) = (case m (c # cs) of Some g \<Rightarrow> Some g | None \<Rightarrow> re_search m cs)"

text \<open>\<^verbatim>\<open>time=(\d+):(\d+):(\d+\.\d+)\<close> at the start of a string; the three groups.\<close>

definition match_time :: "string \<Rightarrow> (string \<times> string \<times> string) option" where
  "match_time s =
     (if startswith s ''time='' then
        let s1 = drop 5 s; hours = takeWhile is_digit s1; s2 = dropWhile is_digit s1 in
        if hours \<noteq> [] \<and> startswith s2 '':'' then
          let s3 = drop 1 s2; minutes = takeWhile is_digit s3; s4 = dropWhile is_digit s3 in
          if minutes \<noteq> [] \<and> startswith s4 '':'' then
            let s5 = drop 1 s4; whole = takeWhile is_digit s5; s6 = dropWhile is_digit s5 in
            if whole \<noteq> [] \<and> startswith s6 ''.'' then
              let frac = takeWhile is_digit (drop 1 s6) in
              if frac \<noteq> [] then Some (hours, minutes, whole @ ''.'' @ frac) else None
            else None
          else None
        else None
      else None)"

text \<open>\<^verbatim>\<open>fps=\s*(\d+\.?\d*)\<close> at the start of a string; its group.\<close>

definition match_fps :: "string \<Rightarrow> string option" where
  "match_fps s =
     (if startswith s ''fps='' then
        let s1 = dropWhile is_space (drop 4 s);
            whole = takeWhile is_digit s1; s2 = dropWhile is_digit s1 in
        if whole \<noteq> [] then
          (if startswith s2 ''.'' then Some (whole @ ''.'' @ takeWhile is_digit (drop 1 s2))
           else Some whole)
        else None
      else None)"

text \<open>\<^verbatim>\<open>frame=\s*(\d+)\<close> at the start of a string; its group.\<close>

definition match_frame :: "string \<Rightarrow> string option" where
  "match_frame s =
     (if startswith s ''frame='' then
        let digits = takeWhile is_digit (dropWhile is_space (drop 6 s)) in
        if digits \<noteq> [] then Some digits else None
      else None)"

text \<open>The values of the dictionary that \<^verbatim>\<open>parse_progress\<close> returns.\<close>

datatype pyval = PyInt int | PyFloat real | PyNone

fun num :: "pyval \<Rightarrow> real" where
  "num (PyInt i) = real_of_int i"
| "num (PyFloat x) = x"
| "num PyNone = 0"

text \<open>\<^verbatim>\<open>min(100, x)\<close> is the integer 100 unless \<open>x\<close> is smaller.\<close>

definition parse_progress :: "string \<Rightarrow> real option \<Rightarrow> (string \<rightharpoonup> pyval) option" where
  "parse_progress line duration =
     (let time_match = re_search match_time line;
          fps_match = re_search match_fps line;
          frame_match = re_search match_frame line
      in case time_match of
           Some (hours, minutes, seconds) \<Rightarrow>
             let current_time =
                   real_of_int (py_int hours * 3600 + py_int minutes * 60) + py_float seconds;
                 fps = (case fps_match of Some g \<Rightarrow> PyFloat (py_float g) | None \<Rightarrow> PyInt 0);
                 frame = (case frame_match of Some g \<Rightarrow> py_int g | None \<Rightarrow> 0);
                 progress_info =
                   [''current_time'' \<mapsto> PyFloat current_time, ''fps'' \<mapsto> fps,
                    ''frame'' \<mapsto> PyInt frame]
             in (case duration of
                   Some d \<Rightarrow>
                     if d \<noteq> 0 \<and> d > 0
                     then
                       let percentage = (current_time / d) * 100;
                           info1 = progress_info(''percentage'' \<mapsto>
                                     (if percentage < 100 then PyFloat percentage else PyInt 100))
                       in if num fps > 0
                          then Some (info1(''eta'' \<mapsto> PyFloat ((d - current_time) / num fps)))
                          else Some info1
                     else Some (progress_info(''percentage'' \<mapsto> PyInt 0, ''eta'' \<mapsto> PyNone))
                 | None \<Rightarrow>
                     Some (progress_info(''percentage'' \<mapsto> PyInt 0, ''eta'' \<mapsto> PyNone)))
         | None \<Rightarrow> None)"





section \<open>Quality settings at start-up (converter.py, main)\<close>

text \<open>
  The parsed command line, as far as \<^verbatim>\<open>main\<close> reads it to build the converter:
  \<^verbatim>\<open>args.crf\<close>, \<^verbatim>\<open>args.preset\<close> and \<^verbatim>\<open>args.quality\<close>, each absent unless given.
\<close>

record args =
  args_crf :: "int option"
  args_preset :: "string option"
  args_quality :: "string option"

text \<open>
  The block of \<^verbatim>\<open>main\<close> from \<^verbatim>\<open>crf = args.crf\<close> to \<^verbatim>\<open>VideoConverter(logger, crf, preset)\<close>.
  \<^verbatim>\<open>if args.quality:\<close> holds for a string that is present and not empty;
  \<^verbatim>\<open>config.QUALITY_PRESETS[args.quality]\<close> raises \<^verbatim>\<open>KeyError\<close> for a name that is no key.
\<close>

definition main_converter :: "config \<Rightarrow> args \<Rightarrow> py_error + converter \<times> log" where
  "main_converter cfg a =
     (let crf0 = args_crf a;
          preset0 = args_preset a
      in case args_quality a of
           Some quality \<Rightarrow>
             if quality \<noteq> ''''
             then (case QUALITY_PRESETS cfg quality of
                     None \<Rightarrow> Inl KeyError
                   | Some preset_config \<Rightarrow>
                       Inr (VideoConverter cfg (Some (preset_crf preset_config))
                              (Some (preset_name preset_config)),
                            [(INFO, ''Using {args.quality} quality preset (CRF={crf}, preset={preset})'')]))
             else Inr (VideoConverter cfg crf0 preset0, [])
         | None \<Rightarrow> Inr (VideoConverter cfg crf0 preset0, []))"


section \<open>Paths (os.path, pathlib)\<close>

text \<open>
  POSIX paths. \<^verbatim>\<open>os.path.join(a, b)\<close> for two components; \<^verbatim>\<open>Path(p).name\<close> is the last
  component of the path that is neither empty nor \<^verbatim>\<open>.\<close>; the suffix starts at the last
  point of the name, unless that point is the first or the last character of the name.
\<close>

definition os_path_join :: "string \<Rightarrow> string \<Rightarrow> string" where
  "os_path_join a b =
     (if startswith b ''/'' then b
      else if a = '''' \<or> last a = CHR ''/'' then a @ b
      else a @ ''/'' @ b)"

fun split_slash :: "string \<Rightarrow> string list" where
  "split_slash [] = [[]]"
| "split_slash (c # cs) =
     (if c = CHR ''/'' then [] # split_slash cs
      else (c # hd (split_slash cs)) # tl (split_slash cs))"

definition path_name :: "string \<Rightarrow> string" where
  "path_name p =
     (let parts = filter (\<lambda>part. part \<noteq> '''' \<and> part \<noteq> ''.'') (split_slash p)
      in if parts = [] then '''' else last parts)"

definition path_suffix :: "string \<Rightarrow> string" where
  "path_suffix p =
     (let name = path_name p;
          ext = rev (takeWhile (\<lambda>c. c \<noteq> CHR ''.'') (rev name))
      in if CHR ''.'' \<in> set name \<and> ext \<noteq> '''' \<and> length ext + 1 < length name
         then CHR ''.'' # ext
         else '''')"

definition path_stem :: "string \<Rightarrow> string" where
  "path_stem p = take (length (path_name p) - length (path_suffix p)) (path_name p)"


section \<open>The outside world\<close>

text \<open>
  What the program observes of the file system and of the prober at one moment:
  \<^verbatim>\<open>os.path.exists\<close>, \<^verbatim>\<open>os.path.isfile\<close>, \<^verbatim>\<open>os.listdir\<close>, \<^verbatim>\<open>os.path.getsize\<close>, and the outcome
  of running the prober on a path (its parsed output, or the exception of the subprocess
  call or of the parser).
\<close>

record world =
  path_exists :: "string \<Rightarrow> bool"
  path_isfile :: "string \<Rightarrow> bool"
  listdir :: "string \<Rightarrow> py_error + string list"
  getsize :: "string \<Rightarrow> py_error + int"
  ffprobe :: "string \<Rightarrow> py_error + probe_data"

text \<open>
  One run of the encoder: the lines read from its output, each with the reading of
  \<^verbatim>\<open>time.time()\<close> while it is processed, and then either the exception that ended the
  \<^verbatim>\<open>try\<close> block or the return code.
\<close>

record encoder_run =
  out_lines :: "(string \<times> real) list"
  outcome :: "py_error + int"

text \<open>
  What changes the world: \<^verbatim>\<open>os.makedirs(d, exist_ok=True)\<close> and the encoder process. Python's
  \<^verbatim>\<open>float\<close> on the duration string of the prober is a parameter as well.
\<close>

record env =
  makedirs :: "string \<Rightarrow> world \<Rightarrow> py_error + world"
  run_encoder :: "string list \<Rightarrow> world \<Rightarrow> encoder_run \<times> world"
  float_of_str :: "string \<Rightarrow> py_error + real"


section \<open>Probing, validation and output paths (utils.py)\<close>

definition probe_file :: "world \<Rightarrow> string \<Rightarrow> (py_error + probe_data) \<times> log" where
  "probe_file w input_path =
     (let lg = [(DEBUG, ''Probing file: {input_path}'')]
      in case ffprobe w input_path of
           Inr pd \<Rightarrow>
             (Inr pd,
              lg @ [(DEBUG, ''Successfully probed file: {len(probe_data.get('streams', []))} streams found'')])
         | Inl CalledProcessError \<Rightarrow>
             (Inl RuntimeError, lg @ [(ERROR, ''Failed to probe file: {e.stderr}'')])
         | Inl JSONDecodeError \<Rightarrow>
             (Inl RuntimeError, lg @ [(ERROR, ''Failed to parse ffprobe output: {e}'')])
         | Inl e \<Rightarrow> (Inl e, lg))"

definition validate_input_file :: "config \<Rightarrow> world \<Rightarrow> string \<Rightarrow> bool \<times> log" where
  "validate_input_file cfg w input_path =
     (if \<not> path_exists w input_path
      then (False, [(ERROR, ''Input file does not exist: {input_path}'')])
      else if \<not> path_isfile w input_path
      then (False, [(ERROR, ''Input path is not a file: {input_path}'')])
      else if lower (path_suffix input_path) \<notin> set (SUPPORTED_FORMATS cfg)
      then (False,
            [(ERROR, ''Unsupported file format: {file_ext}. Supported: {config.SUPPORTED_FORMATS}'')])
      else (True, [(DEBUG, ''Input file validation passed: {input_path}'')]))"

definition generate_output_path ::
  "config \<Rightarrow> env \<Rightarrow> world \<Rightarrow> string \<Rightarrow> string option \<Rightarrow> py_error + string \<times> world" where
  "generate_output_path cfg e w input_path output_path =
     (case output_path of
        Some p \<Rightarrow>
          if p \<noteq> '''' then Inr (p, w)
          else (case makedirs e (OUTPUT_DIR cfg) w of
                  Inl err \<Rightarrow> Inl err
                | Inr w' \<Rightarrow>
                    Inr (os_path_join (OUTPUT_DIR cfg)
                           (path_stem input_path @ OUTPUT_SUFFIX cfg @ ''.mp4''), w'))
      | None \<Rightarrow>
          (case makedirs e (OUTPUT_DIR cfg) w of
             Inl err \<Rightarrow> Inl err
           | Inr w' \<Rightarrow>
               Inr (os_path_join (OUTPUT_DIR cfg)
                      (path_stem input_path @ OUTPUT_SUFFIX cfg @ ''.mp4''), w')))"

definition get_file_size :: "world \<Rightarrow> string \<Rightarrow> py_error + int" where
  "get_file_size w file_path = getsize w file_path"

text \<open>\<^verbatim>\<open>if duration: return float(duration)\<close>, for the duration string of the \<^verbatim>\<open>format\<close> entry.\<close>

definition get_video_duration :: "env \<Rightarrow> probe_data \<Rightarrow> py_error + real option" where
  "get_video_duration e pd =
     (let format_data = (case format pd of Some f \<Rightarrow> f | None \<Rightarrow> Map.empty)
      in case format_data ''duration'' of
           Some duration \<Rightarrow>
             if duration \<noteq> ''''
             then (case float_of_str e duration of Inl err \<Rightarrow> Inl err | Inr x \<Rightarrow> Inr (Some x))
             else Inr None
         | None \<Rightarrow> Inr None)"

text \<open>The truth value of an optional float: present and not zero.\<close>

definition truthy :: "real option \<Rightarrow> bool" where
  "truthy x = (case x of Some v \<Rightarrow> v \<noteq> 0 | None \<Rightarrow> False)"

text \<open>\<^verbatim>\<open>a / b\<close> on integers.\<close>

definition py_truediv :: "int \<Rightarrow> int \<Rightarrow> py_error + real" where
  "py_truediv a b = (if b = 0 then Inl ZeroDivisionError else Inr (real_of_int a / real_of_int b))"


section \<open>One conversion (converter.py, convert_video)\<close>

text \<open>
  The loop over the lines of the encoder's output, with \<^verbatim>\<open>last_progress_time\<close> and the log.
  A progress dictionary is never empty, so \<^verbatim>\<open>if progress:\<close> holds whenever a record was
  parsed; \<^verbatim>\<open>progress.get('eta')\<close> is \<^verbatim>\<open>None\<close> for a missing key as for a stored \<^verbatim>\<open>None\<close>.
\<close>

fun encode_loop :: "real option \<Rightarrow> (string \<times> real) list \<Rightarrow> real \<times> log \<Rightarrow> real \<times> log" where
  "encode_loop duration [] st = st"
| "encode_loop duration ((line, current_time) # rest) (last_progress_time, lg) =
     (let st1 =
            (case parse_progress line duration of
               Some progress \<Rightarrow>
                 if current_time - last_progress_time \<ge> 2
                 then (current_time,
                       lg @ [(INFO,
                              (case progress ''eta'' of
                                 None \<Rightarrow> ''Progress: {percentage:.1f}% | FPS: {fps:.1f}''
                               | Some PyNone \<Rightarrow> ''Progress: {percentage:.1f}% | FPS: {fps:.1f}''
                               | Some eta \<Rightarrow>
                                   ''Progress: {percentage:.1f}% | FPS: {fps:.1f}''
                                   @ '' | ETA: {utils.format_duration(eta)}''))])
                 else (last_progress_time, lg)
             | None \<Rightarrow> (last_progress_time, lg));
          lg2 =
            (if str_contains ''error'' (lower line) \<or> str_contains ''invalid'' (lower line)
             then snd st1 @ [(WARNING, ''FFmpeg: {line.strip()}'')]
             else snd st1)
      in encode_loop duration rest (fst st1, lg2))"

text \<open>
  The verification block: the \<^verbatim>\<open>try\<close> around the second probe, whose \<^verbatim>\<open>except Exception\<close>
  catches whatever the probe or the reading of its duration raises.
\<close>

definition verify_output :: "env \<Rightarrow> world \<Rightarrow> string \<Rightarrow> real option \<Rightarrow> log" where
  "verify_output e w output_path duration =
     [(INFO, ''Verifying output file...'')]
     @ (case probe_file w output_path of
          (Inl err, lgp) \<Rightarrow> lgp @ [(WARNING, ''Could not verify output file: {e}'')]
        | (Inr output_probe, lgp) \<Rightarrow>
            (case get_video_duration e output_probe of
               Inl err \<Rightarrow> lgp @ [(WARNING, ''Could not verify output file: {e}'')]
             | Inr output_duration \<Rightarrow>
                 if truthy output_duration \<and> truthy duration
                 then (case (output_duration, duration) of
                         (Some od, Some d) \<Rightarrow>
                           if \<bar>od - d\<bar> > 1.0
                           then lgp @ [(WARNING,
                                  ''Duration mismatch: input={utils.format_duration(duration)}, output={utils.format_duration(output_duration)}'')]
                           else lgp @ [(INFO, ''Duration verification passed'')]
                       | _ \<Rightarrow> lgp)
                 else lgp))"

text \<open>
  After the encoder has returned 0: the check of the output file, the size ratio, the
  verification and the final message.
\<close>

definition check_output ::
  "env \<Rightarrow> world \<Rightarrow> string \<Rightarrow> real option \<Rightarrow> int \<Rightarrow> log \<Rightarrow> (py_error + bool) \<times> log \<times> world" where
  "check_output e w output_path duration input_size lg =
     (let lg1 = lg @ [(INFO, ''Conversion completed in {utils.format_duration(elapsed_time)}'')]
      in if \<not> path_exists w output_path
         then (Inr False, lg1 @ [(ERROR, ''Output file was not created'')], w)
         else (case get_file_size w output_path of
                 Inl err \<Rightarrow> (Inl err, lg1, w)
               | Inr output_size \<Rightarrow>
                   let lg2 = lg1 @ [(INFO, ''Output file size: {utils.format_file_size(output_size)}'')]
                   in (case py_truediv output_size input_size of
                         Inl err \<Rightarrow> (Inl err, lg2, w)
                       | Inr ratio \<Rightarrow>
                           (Inr True,
                            lg2 @ [(INFO, ''Size ratio: {size_ratio:.1f}% of original'')]
                              @ verify_output e w output_path duration
                              @ [(INFO, ''Successfully converted: {output_path}'')],
                            w))))"

text \<open>The \<^verbatim>\<open>try\<close> block that runs the encoder, and what follows it.\<close>

definition run_conversion ::
  "env \<Rightarrow> world \<Rightarrow> string list \<Rightarrow> string \<Rightarrow> real option \<Rightarrow> int \<Rightarrow> log
     \<Rightarrow> (py_error + bool) \<times> log \<times> world" where
  "run_conversion e w cmd output_path duration input_size lg =
     (case run_encoder e cmd w of
        (run, w') \<Rightarrow>
          let lg1 = lg @ snd (encode_loop duration (out_lines run) (0, []))
          in (case outcome run of
                Inl err \<Rightarrow> (Inr False, lg1 @ [(ERROR, ''Conversion failed: {e}'')], w')
              | Inr returncode \<Rightarrow>
                  if returncode \<noteq> 0
                  then (Inr False,
                        lg1 @ [(ERROR, ''FFmpeg failed with return code {process.returncode}'')], w')
                  else check_output e w' output_path duration input_size lg1))"

definition convert_video ::
  "config \<Rightarrow> env \<Rightarrow> converter \<Rightarrow> world \<Rightarrow> string \<Rightarrow> string option
     \<Rightarrow> (py_error + bool) \<times> log \<times> world" where
  "convert_video cfg e self w input_path output_path =
     (let lg0 = [(INFO, ''Starting conversion: {input_path}'')]
      in case validate_input_file cfg w input_path of
           (False, lgv) \<Rightarrow> (Inr False, lg0 @ lgv, w)
         | (True, lgv) \<Rightarrow>
             (case (case output_path of
                      None \<Rightarrow> generate_output_path cfg e w input_path None
                    | Some p \<Rightarrow> Inr (p, w)) of
                Inl err \<Rightarrow> (Inl err, lg0 @ lgv, w)
              | Inr (out, w1) \<Rightarrow>
                  let lg1 = lg0 @ lgv @ [(INFO, ''Output file: {output_path}'')]
                  in (case probe_file w1 input_path of
                        (Inl RuntimeError, lgp) \<Rightarrow>
                          (Inr False, lg1 @ lgp @ [(ERROR, ''Failed to probe file: {e}'')], w1)
                      | (Inl err, lgp) \<Rightarrow> (Inl err, lg1 @ lgp, w1)
                      | (Inr pd, lgp) \<Rightarrow>
                          (case get_video_duration e pd of
                             Inl err \<Rightarrow> (Inl err, lg1 @ lgp, w1)
                           | Inr duration \<Rightarrow>
                               let lg2 = lg1 @ lgp
                                     @ (if truthy duration
                                        then [(INFO, ''Video duration: {utils.format_duration(duration)}'')]
                                        else [])
                               in (case get_file_size w1 input_path of
                                     Inl err \<Rightarrow> (Inl err, lg2, w1)
                                   | Inr input_size \<Rightarrow>
                                       let lg3 = lg2 @ [(INFO, ''Input file size: {utils.format_file_size(input_size)}'')]
                                       in (case build_ffmpeg_command cfg self input_path out pd of
                                             Inl err \<Rightarrow> (Inl err, lg3, w1)
                                           | Inr (cmd, lgb) \<Rightarrow>
                                               run_conversion e w1 cmd out duration input_size
                                                 (lg3 @ lgb
                                                    @ [(DEBUG, ''FFmpeg command: {cmd_str}''),
                                                       (INFO, ''Starting FFmpeg conversion...'')])))))))"


section \<open>Batch conversion (utils.py, converter.py)\<close>

text \<open>The loop of \<^verbatim>\<open>list_files_in_directory\<close> over the names that \<^verbatim>\<open>os.listdir\<close> returns.\<close>

fun list_files_loop :: "string list \<Rightarrow> world \<Rightarrow> string \<Rightarrow> string list \<Rightarrow> string list \<Rightarrow> string list" where
  "list_files_loop extensions w directory [] files = files"
| "list_files_loop extensions w directory (file_name # rest) files =
     (let file_path = os_path_join directory file_name
      in if path_isfile w file_path
         then (if lower (path_suffix file_path) \<in> set extensions
               then list_files_loop extensions w directory rest (files @ [file_path])
               else list_files_loop extensions w directory rest files)
         else list_files_loop extensions w directory rest files)"

definition list_files_in_directory ::
  "config \<Rightarrow> world \<Rightarrow> string \<Rightarrow> string list option \<Rightarrow> py_error + string list" where
  "list_files_in_directory cfg w directory extensions =
     (if \<not> path_exists w directory then Inr []
      else
        let exts = (case extensions of None \<Rightarrow> SUPPORTED_FORMATS cfg | Some x \<Rightarrow> x)
        in case listdir w directory of
             Inl err \<Rightarrow> Inl err
           | Inr names \<Rightarrow> Inr (sort (list_files_loop exts w directory names [])))"

definition is_already_converted :: "config \<Rightarrow> world \<Rightarrow> string \<Rightarrow> string option \<Rightarrow> bool" where
  "is_already_converted cfg w input_path output_dir =
     (let output_dir' = (case output_dir of None \<Rightarrow> OUTPUT_DIR cfg | Some d \<Rightarrow> d);
          output_name = path_stem input_path @ OUTPUT_SUFFIX cfg @ ''.mp4'';
          output_path = os_path_join output_dir' output_name
      in path_exists w output_path)"

record stats =
  total :: nat
  success :: nat
  failed :: nat
  skipped :: nat

text \<open>
  The loop of \<^verbatim>\<open>convert_batch\<close> over the files, with the statistics, the log and the world.
  An exception of \<^verbatim>\<open>convert_video\<close> is not caught and ends the batch.
\<close>

fun convert_batch_loop ::
  "config \<Rightarrow> env \<Rightarrow> converter \<Rightarrow> string option \<Rightarrow> bool \<Rightarrow> string list
     \<Rightarrow> stats \<times> log \<times> world \<Rightarrow> (py_error + stats) \<times> log \<times> world" where
  "convert_batch_loop cfg e self output_dir skip_existing [] (st, lg, w) = (Inr st, lg, w)"
| "convert_batch_loop cfg e self output_dir skip_existing (file_path # rest) (st, lg, w) =
     (let lg1 = lg @ [(INFO, CHR 0x0A # ''{'='*60}''),
                      (INFO, ''Processing file {idx}/{len(files)}: {Path(file_path).name}''),
                      (INFO, ''{'='*60}'')]
      in if skip_existing \<and> is_already_converted cfg w file_path output_dir
         then convert_batch_loop cfg e self output_dir skip_existing rest
                (st\<lparr>skipped := skipped st + 1\<rparr>,
                 lg1 @ [(INFO, ''Skipping (already converted): {file_path}'')], w)
         else
           let output_path =
                 (case output_dir of
                    Some d \<Rightarrow>
                      if d \<noteq> ''''
                      then Some (os_path_join d (path_stem file_path @ OUTPUT_SUFFIX cfg @ ''.mp4''))
                      else None
                  | None \<Rightarrow> None)
           in case convert_video cfg e self w file_path output_path of
                (Inl err, lgc, w') \<Rightarrow> (Inl err, lg1 @ lgc, w')
              | (Inr ok, lgc, w') \<Rightarrow>
                  convert_batch_loop cfg e self output_dir skip_existing rest
                    (if ok then st\<lparr>success := success st + 1\<rparr>
                     else st\<lparr>failed := failed st + 1\<rparr>,
                     lg1 @ lgc, w'))"

definition convert_batch ::
  "config \<Rightarrow> env \<Rightarrow> converter \<Rightarrow> world \<Rightarrow> string \<Rightarrow> string option \<Rightarrow> bool
     \<Rightarrow> (py_error + stats) \<times> log \<times> world" where
  "convert_batch cfg e self w input_dir output_dir skip_existing =
     (let lg0 = [(INFO, ''Starting batch conversion from: {input_dir}'')]
      in case (case output_dir of
                 Some d \<Rightarrow> if d \<noteq> '''' then makedirs e d w else Inr w
               | None \<Rightarrow> Inr w) of
           Inl err \<Rightarrow> (Inl err, lg0, w)
         | Inr w1 \<Rightarrow>
             (case list_files_in_directory cfg w1 input_dir None of
                Inl err \<Rightarrow> (Inl err, lg0, w1)
              | Inr files \<Rightarrow>
                  if files = []
                  then (Inr \<lparr>total = 0, success = 0, failed = 0, skipped = 0\<rparr>,
                        lg0 @ [(WARNING, ''No supported files found in {input_dir}'')], w1)
                  else
                    (case convert_batch_loop cfg e self output_dir skip_existing files
                            (\<lparr>total = length files, success = 0, failed = 0, skipped = 0\<rparr>,
                             lg0 @ [(INFO, ''Found {len(files)} file(s) to process'')], w1) of
                       (Inl err, lg, w2) \<Rightarrow> (Inl err, lg, w2)
                     | (Inr st, lg, w2) \<Rightarrow>
                         (Inr st,
                          lg @ [(INFO, CHR 0x0A # ''{'='*60}''),
                                (INFO, ''BATCH CONVERSION SUMMARY''),
                                (INFO, ''{'='*60}''),
                                (INFO, ''Total files: {stats['total']}''),
                                (INFO, ''Successfully converted: {stats['success']}''),
                                (INFO, ''Failed: {stats['failed']}''),
                                (INFO, ''Skipped: {stats['skipped']}''),
                                (INFO, ''{'='*60}'')],
                          w2))))"


section \<open>The audio and subtitle arguments, as the specification words them\<close>

text \<open>
  The metadata arguments of one output track: the language and the title of the stream
  mapped to it, each when present, keyed by the output position.
\<close>

definition track_metadata :: "string \<Rightarrow> nat \<Rightarrow> stream \<Rightarrow> string list" where
  "track_metadata key output_pos s =
     (if dict_get (stream_tags s) ''language'' '''' \<noteq> ''''
      then [key @ str_nat output_pos, ''language='' @ dict_get (stream_tags s) ''language'' '''']
      else [])
     @ (if dict_get (stream_tags s) ''title'' '''' \<noteq> ''''
        then [key @ str_nat output_pos, ''title='' @ dict_get (stream_tags s) ''title'' '''']
        else [])"

text \<open>
  Every stream of the track order is mapped, in that order; output position 0 is the default;
  then the metadata of every mapped track by output position.
\<close>

definition audio_arguments :: "stream list \<Rightarrow> nat list \<Rightarrow> string list" where
  "audio_arguments audio_streams order =
     concat (map (\<lambda>input_pos. [''-map'', ''0:a:'' @ str_nat input_pos]) order)
     @ [''-disposition:a:0'', ''default'']
     @ concat (map (\<lambda>(output_pos, input_pos).
                      track_metadata ''-metadata:s:a:'' output_pos (audio_streams ! input_pos))
                 (enumerate 0 order))"

definition subtitle_arguments :: "config \<Rightarrow> stream list \<Rightarrow> nat list \<Rightarrow> string list" where
  "subtitle_arguments cfg subtitle_streams order =
     concat (map (\<lambda>(output_pos, input_pos).
                      [''-map'', ''0:s:'' @ str_nat input_pos, ''-c:s'', SUBTITLE_CODEC cfg]
                      @ (if output_pos = 0 then [''-disposition:s:0'', ''default''] else [])
                      @ track_metadata ''-metadata:s:s:'' output_pos (subtitle_streams ! input_pos))
                 (enumerate 0 order))"


text \<open>The whole command in closed form: the video arguments, then everything up to the output path.\<close>

definition video_arguments :: "config \<Rightarrow> converter \<Rightarrow> string list" where
  "video_arguments cfg self =
     (if USE_GPU_ACCELERATION cfg then [''-c:v'', GPU_ENCODER cfg]
      else [''-c:v'', VIDEO_CODEC cfg, ''-preset'', preset self, ''-crf'', str_int (crf self)])"

definition stream_arguments :: "config \<Rightarrow> stream list \<times> stream list \<times> stream list \<Rightarrow> string list" where
  "stream_arguments cfg groups =
     (case groups of (video, audio, subs) \<Rightarrow>
       [''-pix_fmt'', PIXEL_FORMAT cfg, ''-c:a'', AUDIO_CODEC cfg, ''-b:a'', AUDIO_BITRATE cfg,
        ''-ac'', str_int (AUDIO_CHANNELS cfg)]
       @ (if video \<noteq> [] then [''-map'', ''0:v:0''] else [])
       @ (if audio \<noteq> [] then audio_arguments audio (fst (get_audio_mapping cfg audio)) else [])
       @ (if INCLUDE_SUBTITLES cfg \<and> subs \<noteq> []
          then subtitle_arguments cfg subs (fst (get_subtitle_mapping cfg subs)) else [])
       @ [''-movflags'', MOVFLAGS cfg, ''-map_metadata'', ''0'', ''-y''])"


section \<open>The selection and planning properties, as the specification words them\<close>

text \<open>
  The lowercased language tag, respectively title tag, of the stream contains one of the
  aliases. A missing tag counts as the empty string.
\<close>

definition language_matches :: "config \<Rightarrow> stream \<Rightarrow> bool" where
  "language_matches cfg s =
     (\<exists>code \<in> set (FRENCH_LANGUAGE_CODES cfg).
        str_contains code (lower (dict_get (stream_tags s) ''language'' '''')))"

definition title_matches :: "config \<Rightarrow> stream \<Rightarrow> bool" where
  "title_matches cfg s =
     (\<exists>code \<in> set (FRENCH_LANGUAGE_CODES cfg).
        str_contains code (lower (dict_get (stream_tags s) ''title'' '''')))"

definition is_preferred :: "config \<Rightarrow> stream \<Rightarrow> bool" where
  "is_preferred cfg s = (language_matches cfg s \<or> title_matches cfg s)"

text \<open>Position \<open>i\<close> holds the first matching stream of the group.\<close>

definition first_preferred :: "config \<Rightarrow> stream list \<Rightarrow> nat \<Rightarrow> bool" where
  "first_preferred cfg ss i =
     (i < length ss \<and> is_preferred cfg (ss ! i) \<and> (\<forall>j<i. \<not> is_preferred cfg (ss ! j)))"


section \<open>Sample inputs\<close>

text \<open>A stream of the given type with the given tags.\<close>

definition tagged_stream :: "string \<Rightarrow> (string \<times> string) list \<Rightarrow> stream" where
  "tagged_stream ty kvs = \<lparr>codec_type = Some ty, tags = Some (map_of kvs)\<rparr>"


text \<open>
  A world with the input \<^verbatim>\<open>in.mkv\<close> and, once the encoder has run, the output \<^verbatim>\<open>out.mp4\<close>;
  the prober reports 130.0 seconds for the input and 128.5 seconds for the output.
\<close>

definition sample_probe :: "string \<Rightarrow> probe_data" where
  "sample_probe d =
     \<lparr> streams = Some [tagged_stream ''video'' [], tagged_stream ''audio'' [(''language'', ''fra'')]],
       format = Some [''duration'' \<mapsto> d] \<rparr>"

definition sample_world :: world where
  "sample_world =
     \<lparr> path_exists = (\<lambda>p. p = ''in.mkv'' \<or> p = ''out.mp4''),
       path_isfile = (\<lambda>p. p = ''in.mkv'' \<or> p = ''out.mp4''),
       listdir = (\<lambda>d. Inl OSError),
       getsize = (\<lambda>p. if p = ''in.mkv'' then Inr 1000
                       else if p = ''out.mp4'' then Inr 400 else Inl OSError),
       ffprobe = (\<lambda>p. if p = ''in.mkv'' then Inr (sample_probe ''130.0'')
                       else if p = ''out.mp4'' then Inr (sample_probe ''128.5'')
                       else Inl CalledProcessError) \<rparr>"

definition sample_env :: env where
  "sample_env =
     \<lparr> makedirs = (\<lambda>d w. Inr w),
       run_encoder =
         (\<lambda>cmd w. (\<lparr> out_lines = [(''frame=  123 fps= 45 time=00:01:05.12 ...'', 3)],
                       outcome = Inr 0 \<rparr>, w)),
       float_of_str = (\<lambda>s. if s = ''130.0'' then Inr 130
                             else if s = ''128.5'' then Inr 128.5 else Inl ValueError) \<rparr>"

text \<open>
  A directory \<^verbatim>\<open>input\<close> with \<^verbatim>\<open>movie.mkv\<close> and a text file, and a directory \<^verbatim>\<open>output\<close> that
  already holds \<^verbatim>\<open>movie_converted.mp4\<close>.
\<close>

definition batch_world :: world where
  "batch_world =
     \<lparr> path_exists = (\<lambda>p. p \<in> set [''input'', ''input/movie.mkv'', ''input/notes.txt'',
                                     ''output'', ''output/movie_converted.mp4'']),
       path_isfile = (\<lambda>p. p \<in> set [''input/movie.mkv'', ''input/notes.txt'',
                                     ''output/movie_converted.mp4'']),
       listdir = (\<lambda>d. if d = ''input'' then Inr [''notes.txt'', ''movie.mkv'']
                       else if d = ''output'' then Inr [''movie_converted.mp4'']
                       else Inl OSError),
       getsize = (\<lambda>p. Inr 1000),
       ffprobe = (\<lambda>p. Inl CalledProcessError) \<rparr>"




section \<open>Properties of the string functions\<close>



section \<open>Language selection and track order\<close>

lemma first_preferred_Cons:
  "first_preferred cfg (s # ss) i =
     (if is_preferred cfg s then i = 0 else (\<exists>i'. i = Suc i' \<and> first_preferred cfg ss i'))"
proof (cases "is_preferred cfg s")
  case True
  then show ?thesis
    unfolding first_preferred_def by (cases i) auto
next
  case False
  show ?thesis
  proof (cases i)
    case 0
    with False show ?thesis unfolding first_preferred_def by simp
  next
    case (Suc i')
    have "(\<forall>j<Suc i'. \<not> is_preferred cfg ((s # ss) ! j)) = (\<forall>j<i'. \<not> is_preferred cfg (ss ! j))"
      using False by (auto simp: less_Suc_eq_0_disj)
    with False Suc show ?thesis unfolding first_preferred_def by simp
  qed
qed

lemma audio_loop_step:
  "fst (find_french_audio_loop cfg k (s # ss)) =
     (if is_preferred cfg s then Some k else fst (find_french_audio_loop cfg (Suc k) ss))"
  by (simp add: is_preferred_def language_matches_def title_matches_def any_in_def
      list_ex_iff Let_def case_prod_beta)

lemma subtitle_loop_step:
  "fst (find_french_subtitle_loop cfg k (s # ss)) =
     (if is_preferred cfg s then Some k else fst (find_french_subtitle_loop cfg (Suc k) ss))"
  by (simp add: is_preferred_def language_matches_def title_matches_def any_in_def
      list_ex_iff Let_def case_prod_beta)

lemma audio_loop_Some:
  "(fst (find_french_audio_loop cfg k ss) = Some r) = (\<exists>i. r = k + i \<and> first_preferred cfg ss i)"
proof (induction ss arbitrary: k)
  case Nil
  show ?case by (simp add: first_preferred_def)
next
  case (Cons s ss)
  show ?case
  proof (cases "is_preferred cfg s")
    case True
    then show ?thesis
      by (auto simp: first_preferred_Cons audio_loop_step simp del: find_french_audio_loop.simps)
  next
    case False
    with Cons.IH [of "Suc k"] show ?thesis
      by (auto simp: first_preferred_Cons audio_loop_step simp del: find_french_audio_loop.simps)
  qed
qed

lemma audio_loop_None:
  "(fst (find_french_audio_loop cfg k ss) = None) = (\<forall>s \<in> set ss. \<not> is_preferred cfg s)"
proof (induction ss arbitrary: k)
  case Nil
  show ?case by simp
next
  case (Cons s ss)
  then show ?case by (simp add: audio_loop_step del: find_french_audio_loop.simps)
qed

lemma subtitle_loop_eq_audio_loop:
  "fst (find_french_subtitle_loop cfg k ss) = fst (find_french_audio_loop cfg k ss)"
proof (induction ss arbitrary: k)
  case Nil
  show ?case by simp
next
  case (Cons s ss)
  then show ?case
    by (simp add: audio_loop_step subtitle_loop_step
        del: find_french_audio_loop.simps find_french_subtitle_loop.simps)
qed


lemma audio_loop_last_log:
  "fst (find_french_audio_loop cfg k ss) = Some (k + i) \<Longrightarrow>
   last (snd (find_french_audio_loop cfg k ss)) =
     (INFO, if language_matches cfg (ss ! i)
            then ''Found French audio stream at index {idx} (language: {language})''
            else ''Found French audio stream at index {idx} (title: {title})'')"
proof (induction ss arbitrary: k i)
  case Nil
  then show ?case by simp
next
  case (Cons s ss)
  show ?case
  proof (cases "is_preferred cfg s")
    case True
    with Cons.prems have "i = 0"
      by (simp add: audio_loop_step del: find_french_audio_loop.simps)
    with True show ?thesis
      by (auto simp: is_preferred_def language_matches_def title_matches_def any_in_def
          list_ex_iff Let_def)
  next
    case False
    with Cons.prems have r: "fst (find_french_audio_loop cfg (Suc k) ss) = Some (k + i)"
      by (simp add: audio_loop_step del: find_french_audio_loop.simps)
    then have "\<exists>i'. k + i = Suc k + i'"
      unfolding audio_loop_Some by blast
    then obtain i' where i: "i = Suc i'" by (cases i) auto
    with r have "fst (find_french_audio_loop cfg (Suc k) ss) = Some (Suc k + i')" by simp
    from Cons.IH [OF this]
    have ih: "last (snd (find_french_audio_loop cfg (Suc k) ss)) =
      (INFO, if language_matches cfg (ss ! i')
            then ''Found French audio stream at index {idx} (language: {language})''
            else ''Found French audio stream at index {idx} (title: {title})'')" .
    have ne: "snd (find_french_audio_loop cfg (Suc k) ss) \<noteq> []"
      by (cases ss) (auto simp: Let_def case_prod_beta)
    from False have "snd (find_french_audio_loop cfg k (s # ss)) =
        [(DEBUG, ''Audio stream {idx}: language='{language}', title='{title}'' @ [CHR 0x27])]
        @ snd (find_french_audio_loop cfg (Suc k) ss)"
      by (simp add: is_preferred_def language_matches_def title_matches_def any_in_def
          list_ex_iff Let_def case_prod_beta)
    with ne ih i show ?thesis by (simp del: find_french_audio_loop.simps)
  qed
qed

lemma audio_mapping_loop_eq:
  "audio_mapping_loop f xs m = m @ filter (\<lambda>idx. idx \<noteq> f) xs"
  by (induction xs arbitrary: m) auto

lemma subtitle_mapping_loop_eq:
  "subtitle_mapping_loop f xs m = m @ filter (\<lambda>idx. idx \<noteq> f) xs"
  by (induction xs arbitrary: m) auto

lemma mset_promote:
  assumes "p < n"
  shows "mset (p # filter (\<lambda>idx. idx \<noteq> p) [0..<n]) = mset [0..<n]"
proof -
  have "mset [0..<n] = mset (filter (\<lambda>idx. idx = p) [0..<n]) + mset (filter (\<lambda>idx. idx \<noteq> p) [0..<n])"
    by (simp only: mset_filter multiset_partition [symmetric])
  moreover have "filter (\<lambda>idx. idx = p) [0..<n] = [p]"
    using assms by (induction n) (auto simp: less_Suc_eq)
  ultimately show ?thesis by simp
qed


lemma finder_Some_lt:
  "fst (find_french_audio_stream cfg ss) = Some p \<Longrightarrow> p < length ss"
  unfolding find_french_audio_stream_def audio_loop_Some first_preferred_def by auto

lemma audio_mapping_cases:
  "fst (get_audio_mapping cfg ss) =
     (case fst (find_french_audio_stream cfg ss) of
        None \<Rightarrow> [0..<length ss]
      | Some p \<Rightarrow> p # filter (\<lambda>idx. idx \<noteq> p) [0..<length ss])"
proof (cases "ss = []")
  case True
  then show ?thesis
    by (simp add: get_audio_mapping_def find_french_audio_stream_def)
next
  case False
  then show ?thesis
    by (simp add: get_audio_mapping_def audio_mapping_loop_eq
        split: prod.splits option.splits)
qed

lemma subtitle_mapping_cases:
  "fst (get_subtitle_mapping cfg ss) =
     (case fst (find_french_subtitle_stream cfg ss) of
        None \<Rightarrow> [0..<length ss]
      | Some p \<Rightarrow> p # filter (\<lambda>idx. idx \<noteq> p) [0..<length ss])"
  by (simp add: get_subtitle_mapping_def subtitle_mapping_loop_eq
      split: prod.splits option.splits)

lemma finders_agree:
  "fst (find_french_subtitle_stream cfg ss) = fst (find_french_audio_stream cfg ss)"
  by (simp add: find_french_subtitle_stream_def find_french_audio_stream_def
      subtitle_loop_eq_audio_loop)

lemma mset_audio_mapping: "mset (fst (get_audio_mapping cfg ss)) = mset [0..<length ss]"
proof (cases "fst (find_french_audio_stream cfg ss)")
  case None
  then show ?thesis by (simp add: audio_mapping_cases)
next
  case (Some p)
  then have "p < length ss" by (rule finder_Some_lt)
  from mset_promote [OF this] Some show ?thesis
    by (simp add: audio_mapping_cases)
qed

text \<open>
  \<^bold>\<open>Claim C1.\<close> For a stream group of any size \<open>N\<close>, the planned track order is a permutation
  of \<open>0..N-1\<close>. If the finder returns no preferred stream, the order is \<open>[0, ..., N-1]\<close>; if it
  returns position \<open>p\<close>, the order is \<open>p\<close> followed by all other indices in their original
  order. This holds for the audio order of \<^verbatim>\<open>get_audio_mapping\<close> and for the subtitle order
  planned inside \<^verbatim>\<open>build_ffmpeg_command\<close>, and the two are the same function of the group.
\<close>

theorem track_order_promotes_preferred:
  "mset (fst (get_audio_mapping cfg ss)) = mset [0..<length ss]
   \<and> (fst (find_french_audio_stream cfg ss) = None \<longrightarrow>
        fst (get_audio_mapping cfg ss) = [0..<length ss])
   \<and> (\<forall>p. fst (find_french_audio_stream cfg ss) = Some p \<longrightarrow>
        fst (get_audio_mapping cfg ss) = p # filter (\<lambda>i. i \<noteq> p) [0..<length ss])
   \<and> mset (fst (get_subtitle_mapping cfg ss)) = mset [0..<length ss]
   \<and> (fst (find_french_subtitle_stream cfg ss) = None \<longrightarrow>
        fst (get_subtitle_mapping cfg ss) = [0..<length ss])
   \<and> (\<forall>p. fst (find_french_subtitle_stream cfg ss) = Some p \<longrightarrow>
        fst (get_subtitle_mapping cfg ss) = p # filter (\<lambda>i. i \<noteq> p) [0..<length ss])
   \<and> fst (get_subtitle_mapping cfg ss) = fst (get_audio_mapping cfg ss)"
proof -
  have sub: "fst (get_subtitle_mapping cfg ss) = fst (get_audio_mapping cfg ss)"
    by (simp add: audio_mapping_cases subtitle_mapping_cases finders_agree)
  show ?thesis
    unfolding sub
    by (simp add: mset_audio_mapping finders_agree) (simp add: audio_mapping_cases)
qed

theorem track_order_promotes_preferred_witness:
  "fst (find_french_audio_stream default_config
          [tagged_stream ''audio'' [(''language'', ''eng'')],
           tagged_stream ''audio'' [(''language'', ''fra'')]]) = Some 1
   \<and> fst (get_audio_mapping default_config
          [tagged_stream ''audio'' [(''language'', ''eng'')],
           tagged_stream ''audio'' [(''language'', ''fra'')]]) = [1, 0]
   \<and> fst (find_french_subtitle_stream default_config
          [tagged_stream ''subtitle'' [(''language'', ''ger'')],
           tagged_stream ''subtitle'' [(''title'', ''English'')]]) = None
   \<and> fst (get_subtitle_mapping default_config
          [tagged_stream ''subtitle'' [(''language'', ''ger'')],
           tagged_stream ''subtitle'' [(''title'', ''English'')]]) = [0, 1]"
proof -
  let ?a = "[tagged_stream ''audio'' [(''language'', ''eng'')],
             tagged_stream ''audio'' [(''language'', ''fra'')]]"
  let ?s = "[tagged_stream ''subtitle'' [(''language'', ''ger'')],
             tagged_stream ''subtitle'' [(''title'', ''English'')]]"
  have a: "fst (find_french_audio_stream default_config ?a) = Some 1"
    by code_simp
  have s: "fst (find_french_subtitle_stream default_config ?s) = None"
    by code_simp
  from a track_order_promotes_preferred [of default_config ?a]
  have "fst (get_audio_mapping default_config ?a) = 1 # filter (\<lambda>i. i \<noteq> 1) [0..<length ?a]"
    by blast
  moreover from s track_order_promotes_preferred [of default_config ?s]
  have "fst (get_subtitle_mapping default_config ?s) = [0..<length ?s]"
    by blast
  ultimately show ?thesis using a s by (simp add: upt_rec)
qed


lemma subtitle_loop_Some:
  "(fst (find_french_subtitle_loop cfg k ss) = Some r) = (\<exists>i. r = k + i \<and> first_preferred cfg ss i)"
  by (simp only: subtitle_loop_eq_audio_loop audio_loop_Some)

lemma subtitle_loop_last_log:
  "fst (find_french_subtitle_loop cfg k ss) = Some (k + i) \<Longrightarrow>
   last (snd (find_french_subtitle_loop cfg k ss)) =
     (INFO, if language_matches cfg (ss ! i)
            then ''Found French subtitle stream at index {idx} (language: {language})''
            else ''Found French subtitle stream at index {idx} (title: {title})'')"
proof (induction ss arbitrary: k i)
  case Nil
  then show ?case by simp
next
  case (Cons s ss)
  show ?case
  proof (cases "is_preferred cfg s")
    case True
    with Cons.prems have "i = 0"
      by (simp add: subtitle_loop_step del: find_french_subtitle_loop.simps)
    with True show ?thesis
      by (auto simp: is_preferred_def language_matches_def title_matches_def any_in_def
          list_ex_iff Let_def)
  next
    case False
    with Cons.prems have r: "fst (find_french_subtitle_loop cfg (Suc k) ss) = Some (k + i)"
      by (simp add: subtitle_loop_step del: find_french_subtitle_loop.simps)
    then have "\<exists>i'. k + i = Suc k + i'"
      unfolding subtitle_loop_Some by blast
    then obtain i' where i: "i = Suc i'" by (cases i) auto
    with r have "fst (find_french_subtitle_loop cfg (Suc k) ss) = Some (Suc k + i')" by simp
    from Cons.IH [OF this]
    have ih: "last (snd (find_french_subtitle_loop cfg (Suc k) ss)) =
      (INFO, if language_matches cfg (ss ! i')
            then ''Found French subtitle stream at index {idx} (language: {language})''
            else ''Found French subtitle stream at index {idx} (title: {title})'')" .
    have ne: "snd (find_french_subtitle_loop cfg (Suc k) ss) \<noteq> []"
      by (cases ss) (auto simp: Let_def case_prod_beta)
    from False have "snd (find_french_subtitle_loop cfg k (s # ss)) =
        [(DEBUG, ''Subtitle stream {idx}: language='{language}', title='{title}'' @ [CHR 0x27])]
        @ snd (find_french_subtitle_loop cfg (Suc k) ss)"
      by (simp add: is_preferred_def language_matches_def title_matches_def any_in_def
          list_ex_iff Let_def case_prod_beta)
    with ne ih i show ?thesis by (simp del: find_french_subtitle_loop.simps)
  qed
qed

text \<open>
  \<^bold>\<open>Claim C2.\<close> The finder scans the streams in order and returns the index of the first
  stream whose lowercased language tag, or else whose lowercased title tag, contains one of
  the aliases: it returns \<open>i\<close> exactly when stream \<open>i\<close> matches and no earlier stream does,
  whatever tag the earlier or later streams match on. It returns nothing on the empty group
  and exactly when no tag of any stream contains an alias. On the stream it returns, the
  language is tested before the title: the last record logged names the language when the
  language matches, and the title only when the language does not. The subtitle finder
  returns the same index as the audio finder. Both are functions of their input, so equal
  inputs give equal results.
\<close>

theorem find_french_stream_first_match:
  "fst (find_french_audio_stream cfg []) = None
   \<and> (fst (find_french_audio_stream cfg ss) = None) =
       (\<forall>s \<in> set ss. \<not> language_matches cfg s \<and> \<not> title_matches cfg s)
   \<and> (fst (find_french_audio_stream cfg ss) = Some i) =
       (i < length ss
        \<and> (language_matches cfg (ss ! i) \<or> title_matches cfg (ss ! i))
        \<and> (\<forall>j<i. \<not> language_matches cfg (ss ! j) \<and> \<not> title_matches cfg (ss ! j)))
   \<and> (fst (find_french_audio_stream cfg ss) = Some i \<longrightarrow>
        last (snd (find_french_audio_stream cfg ss)) =
          (INFO, if language_matches cfg (ss ! i)
                 then ''Found French audio stream at index {idx} (language: {language})''
                 else ''Found French audio stream at index {idx} (title: {title})''))
   \<and> fst (find_french_subtitle_stream cfg ss) = fst (find_french_audio_stream cfg ss)
   \<and> (fst (find_french_subtitle_stream cfg ss) = Some i \<longrightarrow>
        last (snd (find_french_subtitle_stream cfg ss)) =
          (INFO, if language_matches cfg (ss ! i)
                 then ''Found French subtitle stream at index {idx} (language: {language})''
                 else ''Found French subtitle stream at index {idx} (title: {title})''))"
proof -
  have e: "fst (find_french_audio_stream cfg []) = None"
    by (simp add: find_french_audio_stream_def)
  have n: "(fst (find_french_audio_stream cfg ss) = None) =
       (\<forall>s \<in> set ss. \<not> language_matches cfg s \<and> \<not> title_matches cfg s)"
    by (simp add: find_french_audio_stream_def audio_loop_None is_preferred_def)
  have f: "(fst (find_french_audio_stream cfg ss) = Some i) =
       (i < length ss
        \<and> (language_matches cfg (ss ! i) \<or> title_matches cfg (ss ! i))
        \<and> (\<forall>j<i. \<not> language_matches cfg (ss ! j) \<and> \<not> title_matches cfg (ss ! j)))"
    by (simp add: find_french_audio_stream_def audio_loop_Some first_preferred_def
        is_preferred_def)
  have la: "fst (find_french_audio_stream cfg ss) = Some i \<longrightarrow>
        last (snd (find_french_audio_stream cfg ss)) =
          (INFO, if language_matches cfg (ss ! i)
                 then ''Found French audio stream at index {idx} (language: {language})''
                 else ''Found French audio stream at index {idx} (title: {title})'')"
    using audio_loop_last_log [of cfg 0 ss i]
    by (simp add: find_french_audio_stream_def)
  have ls: "fst (find_french_subtitle_stream cfg ss) = Some i \<longrightarrow>
        last (snd (find_french_subtitle_stream cfg ss)) =
          (INFO, if language_matches cfg (ss ! i)
                 then ''Found French subtitle stream at index {idx} (language: {language})''
                 else ''Found French subtitle stream at index {idx} (title: {title})'')"
    using subtitle_loop_last_log [of cfg 0 ss i]
    by (simp add: find_french_subtitle_stream_def)
  from e n f la ls finders_agree [of cfg ss] show ?thesis by blast
qed

theorem find_french_stream_first_match_witness:
  "fst (find_french_audio_stream default_config
          [tagged_stream ''audio'' [(''language'', ''eng''), (''title'', ''English'')],
           tagged_stream ''audio'' [(''language'', ''und''), (''title'', ''VF (French)'')],
           tagged_stream ''audio'' [(''language'', ''FRA'')]]) = Some 1
   \<and> last (snd (find_french_audio_stream default_config
          [tagged_stream ''audio'' [(''language'', ''eng''), (''title'', ''English'')],
           tagged_stream ''audio'' [(''language'', ''und''), (''title'', ''VF (French)'')],
           tagged_stream ''audio'' [(''language'', ''FRA'')]])) =
       (INFO, ''Found French audio stream at index {idx} (title: {title})'')"
proof -
  let ?s0 = "tagged_stream ''audio'' [(''language'', ''eng''), (''title'', ''English'')]"
  let ?s1 = "tagged_stream ''audio'' [(''language'', ''und''), (''title'', ''VF (French)'')]"
  let ?s2 = "tagged_stream ''audio'' [(''language'', ''FRA'')]"
  let ?ss = "[?s0, ?s1, ?s2]"
  have l0: "\<not> language_matches default_config ?s0" by code_simp
  have t0: "\<not> title_matches default_config ?s0" by code_simp
  have l1: "\<not> language_matches default_config ?s1" by code_simp
  have t1: "title_matches default_config ?s1" by code_simp
  have "(1::nat) < length ?ss
        \<and> (language_matches default_config (?ss ! 1) \<or> title_matches default_config (?ss ! 1))
        \<and> (\<forall>j<1. \<not> language_matches default_config (?ss ! j)
                 \<and> \<not> title_matches default_config (?ss ! j))"
    using l0 t0 t1 by simp
  with find_french_stream_first_match [of default_config ?ss 1]
  have r: "fst (find_french_audio_stream default_config ?ss) = Some 1" by blast
  with find_french_stream_first_match [of default_config ?ss 1]
  have "last (snd (find_french_audio_stream default_config ?ss)) =
          (INFO, if language_matches default_config (?ss ! 1)
                 then ''Found French audio stream at index {idx} (language: {language})''
                 else ''Found French audio stream at index {idx} (title: {title})'')"
    by blast
  with r l1 show ?thesis by simp
qed


section \<open>Command synthesis\<close>

lemma audio_map_loop_eq:
  "audio_map_loop order cmd =
     cmd @ concat (map (\<lambda>input_pos. [''-map'', ''0:a:'' @ str_nat input_pos]) order)"
  by (induction order arbitrary: cmd) auto

lemma map_sum_fst_Inr:
  "(map_sum (\<lambda>e. e) fst r = Inr c) = (\<exists>lg. r = Inr (c, lg))"
  by (cases r) auto

lemma audio_metadata_loop_eq:
  "\<forall>i \<in> set order. i < length audio \<Longrightarrow>
   map_sum (\<lambda>e. e) fst (audio_metadata_loop audio k order (cmd, lg)) =
     Inr (cmd @ concat (map (\<lambda>(output_pos, input_pos).
                      track_metadata ''-metadata:s:a:'' output_pos (audio ! input_pos))
                 (enumerate k order)))"
proof (induction order arbitrary: k cmd lg)
  case Nil
  show ?case by simp
next
  case (Cons i order)
  then have i: "i < length audio" and rest: "\<forall>i \<in> set order. i < length audio" by auto
  note ih = Cons.IH [OF rest]
  show ?case using i
    by (simp add: ih track_metadata_def Let_def)
qed

lemma subtitle_loop_eq:
  "\<forall>i \<in> set order. i < length subs \<Longrightarrow>
   map_sum (\<lambda>e. e) fst (subtitle_loop cfg subs k order (cmd, lg)) =
     Inr (cmd @ concat (map (\<lambda>(output_pos, input_pos).
                      [''-map'', ''0:s:'' @ str_nat input_pos, ''-c:s'', SUBTITLE_CODEC cfg]
                      @ (if output_pos = 0 then [''-disposition:s:0'', ''default''] else [])
                      @ track_metadata ''-metadata:s:s:'' output_pos (subs ! input_pos))
                 (enumerate k order)))"
proof (induction order arbitrary: k cmd lg)
  case Nil
  show ?case by simp
next
  case (Cons i order)
  then have i: "i < length subs" and rest: "\<forall>i \<in> set order. i < length subs" by auto
  note ih = Cons.IH [OF rest]
  show ?case using i
    by (simp add: ih track_metadata_def Let_def)
qed

lemma audio_mapping_in_range:
  "\<forall>i \<in> set (fst (get_audio_mapping cfg audio)). i < length audio"
proof -
  have "set (fst (get_audio_mapping cfg audio)) = set [0..<length audio]"
    using mset_audio_mapping [of cfg audio] by (rule mset_eq_setD)
  then show ?thesis by simp
qed

lemma subtitle_mapping_eq_audio:
  "fst (get_subtitle_mapping cfg ss) = fst (get_audio_mapping cfg ss)"
  by (simp add: audio_mapping_cases subtitle_mapping_cases finders_agree)

lemma audio_block_eq:
  "map_sum (\<lambda>e. e) fst (audio_block cfg audio (cmd, lg)) =
     Inr (cmd @ (if audio \<noteq> [] then audio_arguments audio (fst (get_audio_mapping cfg audio))
                 else []))"
proof (cases "audio = []")
  case True
  then show ?thesis by (simp add: audio_block_def)
next
  case False
  obtain m lg_m where m: "get_audio_mapping cfg audio = (m, lg_m)" by (cases "get_audio_mapping cfg audio")
  with audio_mapping_in_range [of cfg audio] have "\<forall>i \<in> set m. i < length audio" by simp
  from audio_metadata_loop_eq [OF this] False m show ?thesis
    by (simp add: audio_block_def audio_map_loop_eq audio_arguments_def)
qed

lemma subtitle_block_eq:
  "map_sum (\<lambda>e. e) fst (subtitle_block cfg subs (cmd, lg)) =
     Inr (cmd @ (if INCLUDE_SUBTITLES cfg \<and> subs \<noteq> []
                 then subtitle_arguments cfg subs (fst (get_subtitle_mapping cfg subs))
                 else []))"
proof (cases "INCLUDE_SUBTITLES cfg \<and> subs \<noteq> []")
  case False
  then show ?thesis by (auto simp: subtitle_block_def)
next
  case True
  obtain m lg_m where m: "get_subtitle_mapping cfg subs = (m, lg_m)"
    by (cases "get_subtitle_mapping cfg subs")
  with audio_mapping_in_range [of cfg subs] subtitle_mapping_eq_audio [of cfg subs]
  have "\<forall>i \<in> set m. i < length subs" by simp
  from subtitle_loop_eq [OF this] True m show ?thesis
    by (simp add: subtitle_block_def subtitle_arguments_def)
qed

lemma build_ffmpeg_command_eq:
  "map_sum (\<lambda>e. e) fst (build_ffmpeg_command cfg self input_path output_path pd) =
     Inr ([''ffmpeg'', ''-i'', input_path] @ video_arguments cfg self
          @ stream_arguments cfg (fst (get_streams_info pd)) @ [output_path])"
proof -
  obtain v a s lg0 where g: "get_streams_info pd = ((v, a, s), lg0)"
    by (metis prod.exhaust)
  obtain c1 l1 where st1: "video_settings cfg self ([''ffmpeg'', ''-i'', input_path], lg0) = (c1, l1)"
    by (metis prod.exhaust)
  then have c1: "c1 = [''ffmpeg'', ''-i'', input_path] @ video_arguments cfg self"
    by (auto simp: video_settings_def video_arguments_def split: if_splits)
  define c2 where "c2 = c1 @ [''-pix_fmt'', PIXEL_FORMAT cfg, ''-c:a'', AUDIO_CODEC cfg, ''-b:a'', AUDIO_BITRATE cfg,
        ''-ac'', str_int (AUDIO_CHANNELS cfg)]"
  define st3 where "st3 = (if v \<noteq> [] then (c2 @ [''-map'', ''0:v:0''], l1)
                   else (c2, l1 @ [(WARNING, ''No video stream found!'')]))"
  have b: "build_ffmpeg_command cfg self input_path output_path pd =
     (case audio_block cfg a st3 of
             Inl e \<Rightarrow> Inl e
           | Inr st4 \<Rightarrow>
               (case subtitle_block cfg s st4 of
                  Inl e \<Rightarrow> Inl e
                | Inr (cmd5, lg5) \<Rightarrow>
                    Inr ((((cmd5 @ [''-movflags'', MOVFLAGS cfg])
                            @ [''-map_metadata'', ''0''])
                            @ [''-y''])
                            @ [output_path],
                         lg5)))"
    by (simp add: build_ffmpeg_command_def g st1 Let_def c2_def st3_def)
  obtain c3 l3 where s3: "st3 = (c3, l3)" by (metis prod.exhaust)
  then have c3: "c3 = c2 @ (if v \<noteq> [] then [''-map'', ''0:v:0''] else [])"
    by (auto simp: st3_def split: if_splits)
  from audio_block_eq [of cfg a c3 l3] obtain l4 where
    a4: "audio_block cfg a st3 = Inr (c3 @ (if a \<noteq> [] then audio_arguments a (fst (get_audio_mapping cfg a))
                 else []), l4)"
    unfolding map_sum_fst_Inr s3 by blast
  from subtitle_block_eq [of cfg s _ l4] obtain l5 where
    a5: "subtitle_block cfg s (c3 @ (if a \<noteq> [] then audio_arguments a (fst (get_audio_mapping cfg a))
                 else []), l4) = Inr ((c3 @ (if a \<noteq> [] then audio_arguments a (fst (get_audio_mapping cfg a))
                 else [])) @ (if INCLUDE_SUBTITLES cfg \<and> s \<noteq> []
                 then subtitle_arguments cfg s (fst (get_subtitle_mapping cfg s))
                 else []), l5)"
    unfolding map_sum_fst_Inr by blast
  show ?thesis
    unfolding b a4 sum.case a5 prod.case
    by (simp add: c3 c2_def c1 g stream_arguments_def)
qed

lemma track_metadata_all:
  assumes "P (key @ str_nat k)" "\<And>v. P (''language='' @ v)" "\<And>v. P (''title='' @ v)"
  shows "\<forall>x \<in> set (track_metadata key k s). P x"
  using assms unfolding track_metadata_def by auto

lemma audio_arguments_all:
  assumes "P ''-map''" "\<And>i. P (''0:a:'' @ str_nat i)" "P ''-disposition:a:0''" "P ''default''"
    "\<And>k. P (''-metadata:s:a:'' @ str_nat k)"
    "\<And>v. P (''language='' @ v)" "\<And>v. P (''title='' @ v)"
  shows "\<forall>x \<in> set (audio_arguments audio order). P x"
proof -
  have "\<forall>x \<in> set (track_metadata ''-metadata:s:a:'' k s). P x" for k s
    by (rule track_metadata_all) (rule assms)+
  then show ?thesis
    unfolding audio_arguments_def using assms(1-4) by (auto simp: case_prod_beta)
qed

lemma subtitle_arguments_all:
  assumes "P ''-map''" "\<And>i. P (''0:s:'' @ str_nat i)" "P ''-c:s''" "P (SUBTITLE_CODEC cfg)"
    "P ''-disposition:s:0''" "P ''default''"
    "\<And>k. P (''-metadata:s:s:'' @ str_nat k)"
    "\<And>v. P (''language='' @ v)" "\<And>v. P (''title='' @ v)"
  shows "\<forall>x \<in> set (subtitle_arguments cfg subs order). P x"
proof -
  have "\<forall>x \<in> set (track_metadata ''-metadata:s:s:'' k s). P x" for k s
    by (rule track_metadata_all) (rule assms)+
  then show ?thesis
    unfolding subtitle_arguments_def using assms(1-6) by (auto simp: case_prod_beta)
qed


lemma stream_arguments_no_video_flag:
  fixes gpu subs groups
  defines "cfg \<equiv> default_config\<lparr>USE_GPU_ACCELERATION := gpu, INCLUDE_SUBTITLES := subs\<rparr>"
  defines "P \<equiv> \<lambda>x. x \<noteq> ''-c:v'' \<and> x \<noteq> ''h264_videotoolbox'' \<and> x \<noteq> ''libx264''
         \<and> x \<noteq> ''-preset'' \<and> x \<noteq> ''-crf''"
  shows "\<forall>x \<in> set (stream_arguments cfg groups). P x"
proof -
  obtain v a s where g: "groups = (v, a, s)" by (cases groups) auto
  have two: "str_int 2 = ''2''" by (simp add: str_int_def str_nat.simps digit_char_def)
  have sc: "SUBTITLE_CODEC cfg = ''mov_text''" by (simp add: cfg_def default_config_def)
  have fixed: "\<forall>x \<in> set [''-pix_fmt'', PIXEL_FORMAT cfg, ''-c:a'', AUDIO_CODEC cfg, ''-b:a'', AUDIO_BITRATE cfg,
        ''-ac'', str_int (AUDIO_CHANNELS cfg)]. P x"
    by (simp add: cfg_def default_config_def two P_def)
  have vm: "\<forall>x \<in> set (if v \<noteq> [] then [''-map'', ''0:v:0''] else []). P x" by (auto simp: P_def)
  have tail: "\<forall>x \<in> set [''-movflags'', MOVFLAGS cfg, ''-map_metadata'', ''0'', ''-y'']. P x"
    by (simp add: cfg_def default_config_def P_def)
  have au: "\<forall>x \<in> set (audio_arguments a order). P x" for order
    unfolding P_def by (rule audio_arguments_all) simp_all
  have su: "\<forall>x \<in> set (subtitle_arguments cfg s order). P x" for order
    unfolding P_def sc by (rule subtitle_arguments_all) (simp_all add: sc)
  have au': "\<forall>x \<in> set (if a \<noteq> [] then audio_arguments a (fst (get_audio_mapping cfg a)) else []). P x"
    using au [of "fst (get_audio_mapping cfg a)"] by auto
  have su': "\<forall>x \<in> set (if INCLUDE_SUBTITLES cfg \<and> s \<noteq> []
          then subtitle_arguments cfg s (fst (get_subtitle_mapping cfg s)) else []). P x"
    using su [of "fst (get_subtitle_mapping cfg s)"] by auto
  show ?thesis
    unfolding g stream_arguments_def prod.case set_append ball_Un
    using fixed vm tail au' su' by blast
qed

text \<open>
  \<^bold>\<open>Claim C4.\<close> For every input, every probe result, every quality setting and either value
  of the two feature flags, the command is \<^verbatim>\<open>ffmpeg -i input\<close>, then the video arguments, then
  the remaining arguments, then the output path. The video arguments are
  \<^verbatim>\<open>-c:v h264_videotoolbox\<close> when hardware acceleration is enabled and
  \<^verbatim>\<open>-c:v libx264 -preset P -crf N\<close> when it is disabled, and none of \<^verbatim>\<open>-c:v\<close>, \<^verbatim>\<open>-preset\<close>,
  \<^verbatim>\<open>-crf\<close>, \<^verbatim>\<open>h264_videotoolbox\<close> and \<^verbatim>\<open>libx264\<close> occurs among the remaining arguments. So
  the builder emits the accelerated encoder or the software codec with preset and CRF,
  never both. The input path, the output path and the preset value are the caller's and
  stand at their own positions.
\<close>

theorem video_settings_mutually_exclusive:
  "\<exists>rest lg.
     build_ffmpeg_command
       (default_config\<lparr>USE_GPU_ACCELERATION := gpu, INCLUDE_SUBTITLES := subs\<rparr>)
       self input_path output_path pd =
       Inr ([''ffmpeg'', ''-i'', input_path]
            @ (if gpu then [''-c:v'', ''h264_videotoolbox'']
               else [''-c:v'', ''libx264'', ''-preset'', preset self, ''-crf'', str_int (crf self)])
            @ rest @ [output_path], lg)
     \<and> ''-c:v'' \<notin> set rest \<and> ''h264_videotoolbox'' \<notin> set rest \<and> ''libx264'' \<notin> set rest
     \<and> ''-preset'' \<notin> set rest \<and> ''-crf'' \<notin> set rest"
proof -
  let ?cfg = "default_config\<lparr>USE_GPU_ACCELERATION := gpu, INCLUDE_SUBTITLES := subs\<rparr>"
  let ?rest = "stream_arguments ?cfg (fst (get_streams_info pd))"
  have v: "video_arguments ?cfg self =
      (if gpu then [''-c:v'', ''h264_videotoolbox'']
       else [''-c:v'', ''libx264'', ''-preset'', preset self, ''-crf'', str_int (crf self)])"
    by (simp add: video_arguments_def default_config_def)
  from build_ffmpeg_command_eq [of ?cfg self input_path output_path pd]
  obtain lg where b: "build_ffmpeg_command ?cfg self input_path output_path pd =
      Inr ([''ffmpeg'', ''-i'', input_path] @ video_arguments ?cfg self @ ?rest @ [output_path], lg)"
    unfolding map_sum_fst_Inr by (rule exE)
  note nf = stream_arguments_no_video_flag
    [where gpu = gpu and subs = subs and groups = "fst (get_streams_info pd)", rule_format]
  show ?thesis
  proof (intro exI conjI)
    show "build_ffmpeg_command ?cfg self input_path output_path pd =
       Inr ([''ffmpeg'', ''-i'', input_path]
            @ (if gpu then [''-c:v'', ''h264_videotoolbox'']
               else [''-c:v'', ''libx264'', ''-preset'', preset self, ''-crf'', str_int (crf self)])
            @ ?rest @ [output_path], lg)"
      using b unfolding v .
    show "''-c:v'' \<notin> set ?rest" using nf [of "''-c:v''"] by auto
    show "''h264_videotoolbox'' \<notin> set ?rest" using nf [of "''h264_videotoolbox''"] by auto
    show "''libx264'' \<notin> set ?rest" using nf [of "''libx264''"] by auto
    show "''-preset'' \<notin> set ?rest" using nf [of "''-preset''"] by auto
    show "''-crf'' \<notin> set ?rest" using nf [of "''-crf''"] by auto
  qed
qed


theorem video_settings_mutually_exclusive_witness:
  "(\<exists>rest lg.
     build_ffmpeg_command
       (default_config\<lparr>USE_GPU_ACCELERATION := True, INCLUDE_SUBTITLES := True\<rparr>)
       (VideoConverter default_config (Some 20) (Some ''fast'')) ''in.mkv'' ''out.mp4''
       \<lparr>streams = None, format = None\<rparr> =
       Inr ([''ffmpeg'', ''-i'', ''in.mkv'', ''-c:v'', ''h264_videotoolbox''] @ rest @ [''out.mp4''], lg)
     \<and> ''-preset'' \<notin> set rest \<and> ''-crf'' \<notin> set rest)
   \<and> (\<exists>rest lg.
     build_ffmpeg_command
       (default_config\<lparr>USE_GPU_ACCELERATION := False, INCLUDE_SUBTITLES := True\<rparr>)
       (VideoConverter default_config (Some 20) (Some ''fast'')) ''in.mkv'' ''out.mp4''
       \<lparr>streams = None, format = None\<rparr> =
       Inr ([''ffmpeg'', ''-i'', ''in.mkv'', ''-c:v'', ''libx264'', ''-preset'', ''fast'', ''-crf'', ''20'']
            @ rest @ [''out.mp4''], lg)
     \<and> ''h264_videotoolbox'' \<notin> set rest)"
proof -
  let ?self = "VideoConverter default_config (Some 20) (Some ''fast'')"
  let ?pd = "\<lparr>streams = None, format = None\<rparr>"
  have p: "preset ?self = ''fast''" by (simp add: VideoConverter_def)
  have c: "str_int (crf ?self) = ''20''"
    by (simp add: VideoConverter_def str_int_def str_nat.simps digit_char_def)
  from video_settings_mutually_exclusive
    [where gpu = True and subs = True and self = ?self and input_path = "''in.mkv''"
       and output_path = "''out.mp4''" and pd = ?pd]
  obtain r1 l1 where
    "build_ffmpeg_command
       (default_config\<lparr>USE_GPU_ACCELERATION := True, INCLUDE_SUBTITLES := True\<rparr>)
       ?self ''in.mkv'' ''out.mp4'' ?pd =
       Inr ([''ffmpeg'', ''-i'', ''in.mkv''] @ [''-c:v'', ''h264_videotoolbox''] @ r1 @ [''out.mp4''], l1)"
    "''-preset'' \<notin> set r1" "''-crf'' \<notin> set r1"
    unfolding if_True by (elim exE conjE)
  then have g: "\<exists>rest lg.
     build_ffmpeg_command
       (default_config\<lparr>USE_GPU_ACCELERATION := True, INCLUDE_SUBTITLES := True\<rparr>)
       ?self ''in.mkv'' ''out.mp4'' ?pd =
       Inr ([''ffmpeg'', ''-i'', ''in.mkv'', ''-c:v'', ''h264_videotoolbox''] @ rest @ [''out.mp4''], lg)
     \<and> ''-preset'' \<notin> set rest \<and> ''-crf'' \<notin> set rest"
    by (intro exI [of _ r1] exI [of _ l1]) simp
  from video_settings_mutually_exclusive
    [where gpu = False and subs = True and self = ?self and input_path = "''in.mkv''"
       and output_path = "''out.mp4''" and pd = ?pd]
  obtain r2 l2 where
    "build_ffmpeg_command
       (default_config\<lparr>USE_GPU_ACCELERATION := False, INCLUDE_SUBTITLES := True\<rparr>)
       ?self ''in.mkv'' ''out.mp4'' ?pd =
       Inr ([''ffmpeg'', ''-i'', ''in.mkv'']
            @ [''-c:v'', ''libx264'', ''-preset'', preset ?self, ''-crf'', str_int (crf ?self)]
            @ r2 @ [''out.mp4''], l2)"
    "''h264_videotoolbox'' \<notin> set r2"
    unfolding if_False by (elim exE conjE)
  then have s: "\<exists>rest lg.
     build_ffmpeg_command
       (default_config\<lparr>USE_GPU_ACCELERATION := False, INCLUDE_SUBTITLES := True\<rparr>)
       ?self ''in.mkv'' ''out.mp4'' ?pd =
       Inr ([''ffmpeg'', ''-i'', ''in.mkv'', ''-c:v'', ''libx264'', ''-preset'', ''fast'', ''-crf'', ''20'']
            @ rest @ [''out.mp4''], lg)
     \<and> ''h264_videotoolbox'' \<notin> set rest"
    unfolding p c by (intro exI [of _ r2] exI [of _ l2]) simp
  from g s show ?thesis by (rule conjI)
qed

text \<open>
  \<^bold>\<open>Claim C3.\<close> When the audio group is not empty, the command holds, in one piece, the
  arguments \<open>audio_arguments\<close> for the planned order: a \<^verbatim>\<open>-map 0:a:i\<close> for every stream of the
  order, in that order, then \<^verbatim>\<open>-disposition:a:0 default\<close>, then for every output position
  the language and the title of the stream mapped there, when not empty, under the key
  \<^verbatim>\<open>-metadata:s:a:\<close> followed by the output position. The order is a permutation of all the
  indices of the group, so every audio stream is mapped. For the audio streams
  \<^verbatim>\<open>[{language: eng}, {language: fra}]\<close> the order is \<open>[1, 0]\<close> and the command is the one
  written out below, with \<^verbatim>\<open>-metadata:s:a:0 language=fra\<close>.
\<close>

theorem audio_streams_mapped_in_planned_order:
  "(fst (get_streams_info pd) = (video, audio, subs) \<and> audio \<noteq> [] \<longrightarrow>
      (\<exists>pre post lg.
         build_ffmpeg_command cfg self input_path output_path pd =
           Inr (pre @ audio_arguments audio (fst (get_audio_mapping cfg audio)) @ post, lg))
      \<and> mset (fst (get_audio_mapping cfg audio)) = mset [0..<length audio])
   \<and> fst (get_audio_mapping default_config
             [tagged_stream ''audio'' [(''language'', ''eng'')],
              tagged_stream ''audio'' [(''language'', ''fra'')]]) = [1, 0]
   \<and> map_sum (\<lambda>e. e) fst
         (build_ffmpeg_command default_config (VideoConverter default_config None None)
            ''movie.mkv'' ''movie.mp4''
            \<lparr>streams = Some [tagged_stream ''audio'' [(''language'', ''eng'')],
                              tagged_stream ''audio'' [(''language'', ''fra'')]],
             format = None\<rparr>) =
       Inr [''ffmpeg'', ''-i'', ''movie.mkv'', ''-c:v'', ''libx264'', ''-preset'', ''medium'',
            ''-crf'', ''23'', ''-pix_fmt'', ''yuv420p'', ''-c:a'', ''aac'', ''-b:a'', ''192k'',
            ''-ac'', ''2'',
            ''-map'', ''0:a:1'', ''-map'', ''0:a:0'', ''-disposition:a:0'', ''default'',
            ''-metadata:s:a:0'', ''language=fra'', ''-metadata:s:a:1'', ''language=eng'',
            ''-movflags'', ''+faststart'', ''-map_metadata'', ''0'', ''-y'', ''movie.mp4'']"
proof (intro conjI impI)
  assume a: "fst (get_streams_info pd) = (video, audio, subs) \<and> audio \<noteq> []"
  let ?A = "audio_arguments audio (fst (get_audio_mapping cfg audio))"
  let ?pre = "[''ffmpeg'', ''-i'', input_path] @ video_arguments cfg self
       @ [''-pix_fmt'', PIXEL_FORMAT cfg, ''-c:a'', AUDIO_CODEC cfg, ''-b:a'', AUDIO_BITRATE cfg,
          ''-ac'', str_int (AUDIO_CHANNELS cfg)]
       @ (if video \<noteq> [] then [''-map'', ''0:v:0''] else [])"
  let ?post = "(if INCLUDE_SUBTITLES cfg \<and> subs \<noteq> []
          then subtitle_arguments cfg subs (fst (get_subtitle_mapping cfg subs)) else [])
       @ [''-movflags'', MOVFLAGS cfg, ''-map_metadata'', ''0'', ''-y''] @ [output_path]"
  from build_ffmpeg_command_eq [of cfg self input_path output_path pd]
  obtain lg where "build_ffmpeg_command cfg self input_path output_path pd =
      Inr ([''ffmpeg'', ''-i'', input_path] @ video_arguments cfg self
          @ stream_arguments cfg (fst (get_streams_info pd)) @ [output_path], lg)"
    unfolding map_sum_fst_Inr by (rule exE)
  with a have "build_ffmpeg_command cfg self input_path output_path pd = Inr (?pre @ ?A @ ?post, lg)"
    by (simp add: stream_arguments_def)
  then show "\<exists>pre post lg.
         build_ffmpeg_command cfg self input_path output_path pd = Inr (pre @ ?A @ post, lg)"
    by (intro exI)
next
  show "mset (fst (get_audio_mapping cfg audio)) = mset [0..<length audio]"
    by (rule mset_audio_mapping)
next
  show "fst (get_audio_mapping default_config
             [tagged_stream ''audio'' [(''language'', ''eng'')],
              tagged_stream ''audio'' [(''language'', ''fra'')]]) = [1, 0]"
    by code_simp
next
  show "map_sum (\<lambda>e. e) fst
         (build_ffmpeg_command default_config (VideoConverter default_config None None)
            ''movie.mkv'' ''movie.mp4''
            \<lparr>streams = Some [tagged_stream ''audio'' [(''language'', ''eng'')],
                              tagged_stream ''audio'' [(''language'', ''fra'')]],
             format = None\<rparr>) =
       Inr [''ffmpeg'', ''-i'', ''movie.mkv'', ''-c:v'', ''libx264'', ''-preset'', ''medium'',
            ''-crf'', ''23'', ''-pix_fmt'', ''yuv420p'', ''-c:a'', ''aac'', ''-b:a'', ''192k'',
            ''-ac'', ''2'',
            ''-map'', ''0:a:1'', ''-map'', ''0:a:0'', ''-disposition:a:0'', ''default'',
            ''-metadata:s:a:0'', ''language=fra'', ''-metadata:s:a:1'', ''language=eng'',
            ''-movflags'', ''+faststart'', ''-map_metadata'', ''0'', ''-y'', ''movie.mp4'']"
    by code_simp
qed


theorem audio_streams_mapped_in_planned_order_witness:
  "\<exists>pre post lg.
     build_ffmpeg_command default_config (VideoConverter default_config None None)
       ''movie.mkv'' ''movie.mp4''
       \<lparr>streams = Some [tagged_stream ''video'' [],
                         tagged_stream ''audio'' [(''language'', ''eng''), (''title'', ''Stereo'')],
                         tagged_stream ''audio'' [(''language'', ''fra'')]],
        format = None\<rparr> =
     Inr (pre @ [''-map'', ''0:a:1'', ''-map'', ''0:a:0'', ''-disposition:a:0'', ''default'',
                 ''-metadata:s:a:0'', ''language=fra'',
                 ''-metadata:s:a:1'', ''language=eng'', ''-metadata:s:a:1'', ''title=Stereo'']
              @ post, lg)"
proof -
  let ?v = "tagged_stream ''video'' []"
  let ?a = "[tagged_stream ''audio'' [(''language'', ''eng''), (''title'', ''Stereo'')],
             tagged_stream ''audio'' [(''language'', ''fra'')]]"
  let ?pd = "\<lparr>streams = Some (?v # ?a), format = None\<rparr>"
  have g: "fst (get_streams_info ?pd) = ([?v], ?a, []) \<and> ?a \<noteq> []"
    by (simp add: get_streams_info_def tagged_stream_def Let_def)
  have e: "audio_arguments ?a (fst (get_audio_mapping default_config ?a)) =
      [''-map'', ''0:a:1'', ''-map'', ''0:a:0'', ''-disposition:a:0'', ''default'',
       ''-metadata:s:a:0'', ''language=fra'',
       ''-metadata:s:a:1'', ''language=eng'', ''-metadata:s:a:1'', ''title=Stereo'']"
    by code_simp
  from g audio_streams_mapped_in_planned_order
    [where pd = ?pd and video = "[?v]" and audio = ?a and subs = "[]" and cfg = default_config
       and self = "VideoConverter default_config None None"
       and input_path = "''movie.mkv''" and output_path = "''movie.mp4''"]
  have "\<exists>pre post lg.
         build_ffmpeg_command default_config (VideoConverter default_config None None)
           ''movie.mkv'' ''movie.mp4'' ?pd =
           Inr (pre @ audio_arguments ?a (fst (get_audio_mapping default_config ?a)) @ post, lg)"
    by (elim conjE impE) (rule g)
  then show ?thesis unfolding e .
qed


section \<open>Progress parsing\<close>






















section \<open>Quality settings\<close>

text \<open>
  \<^bold>\<open>Claim C8.\<close> When the quality preset \<^verbatim>\<open>high\<close> is given on the command line, \<^verbatim>\<open>main\<close> builds
  the converter with CRF 18 and preset \<^verbatim>\<open>slow\<close>, whatever values \<^verbatim>\<open>--crf\<close> and \<^verbatim>\<open>--preset\<close>
  have or lack.
\<close>

theorem high_preset_takes_precedence:
  "args_quality a = Some ''high'' \<longrightarrow>
     (\<exists>lg. main_converter default_config a = Inr (\<lparr>crf = 18, preset = ''slow''\<rparr>, lg))"
  by (simp add: main_converter_def default_config_def VideoConverter_def)

theorem high_preset_takes_precedence_witness:
  "args_quality \<lparr>args_crf = Some 28, args_preset = Some ''ultrafast'', args_quality = Some ''high''\<rparr>
     = Some ''high''
   \<and> (\<exists>lg. main_converter default_config
          \<lparr>args_crf = Some 28, args_preset = Some ''ultrafast'', args_quality = Some ''high''\<rparr>
        = Inr (\<lparr>crf = 18, preset = ''slow''\<rparr>, lg))"
  using high_preset_takes_precedence
    [of "\<lparr>args_crf = Some 28, args_preset = Some ''ultrafast'', args_quality = Some ''high''\<rparr>"]
  by simp


section \<open>One conversion\<close>

lemma convert_video_reaches_check:
  assumes v: "fst (validate_input_file cfg w input_path)"
    and o: "(case output_path of
               None \<Rightarrow> generate_output_path cfg e w input_path None
             | Some p \<Rightarrow> Inr (p, w)) = Inr (out, w1)"
    and p: "ffprobe w1 input_path = Inr pd"
    and d: "get_video_duration e pd = Inr duration"
    and s: "getsize w1 input_path = Inr input_size"
    and r: "run_encoder e
              ([''ffmpeg'', ''-i'', input_path] @ video_arguments cfg self
               @ stream_arguments cfg (fst (get_streams_info pd)) @ [out]) w1 = (run, w2)"
      "outcome run = Inr 0"
  shows "\<exists>lg. convert_video cfg e self w input_path output_path =
           check_output e w2 out duration input_size lg"
proof -
  define cmd where "cmd = [''ffmpeg'', ''-i'', input_path] @ video_arguments cfg self
               @ stream_arguments cfg (fst (get_streams_info pd)) @ [out]"
  obtain lgv where v': "validate_input_file cfg w input_path = (True, lgv)"
    using v by (cases "validate_input_file cfg w input_path") auto
  obtain lgp where p': "probe_file w1 input_path = (Inr pd, lgp)"
    using p by (simp add: probe_file_def)
  from build_ffmpeg_command_eq [of cfg self input_path out pd]
  obtain lgb where b: "build_ffmpeg_command cfg self input_path out pd = Inr (cmd, lgb)"
    unfolding map_sum_fst_Inr cmd_def by (rule exE)
  have rc: "run_conversion e w1 cmd out duration input_size lg =
      check_output e w2 out duration input_size
        (lg @ snd (encode_loop duration (out_lines run) (0, [])))" for lg
    unfolding run_conversion_def cmd_def r by (simp add: r Let_def)
  have cv: "convert_video cfg e self w input_path output_path =
      run_conversion e w1 cmd out duration input_size
        ((([(INFO, ''Starting conversion: {input_path}'')] @ lgv
            @ [(INFO, ''Output file: {output_path}'')]) @ lgp
           @ (if truthy duration
              then [(INFO, ''Video duration: {utils.format_duration(duration)}'')]
              else []))
          @ [(INFO, ''Input file size: {utils.format_file_size(input_size)}'')]
          @ lgb
          @ [(DEBUG, ''FFmpeg command: {cmd_str}''), (INFO, ''Starting FFmpeg conversion...'')])"
    unfolding convert_video_def
    by (simp add: Let_def v' o p' d get_file_size_def s b split del: if_split)
  show ?thesis unfolding cv rc by (rule exI, rule refl)
qed


lemma check_output_zero:
  assumes "path_exists w out" "getsize w out = Inr output_size"
  shows "fst (check_output e w out duration 0 lg) = Inl ZeroDivisionError"
  using assms by (simp add: check_output_def get_file_size_def py_truediv_def Let_def)

lemma check_output_nonzero:
  assumes "path_exists w out" "getsize w out = Inr output_size" "input_size \<noteq> 0"
  shows "check_output e w out duration input_size lg =
     (Inr True,
      (lg @ [(INFO, ''Conversion completed in {utils.format_duration(elapsed_time)}''),
             (INFO, ''Output file size: {utils.format_file_size(output_size)}''),
             (INFO, ''Size ratio: {size_ratio:.1f}% of original'')])
        @ verify_output e w out duration
        @ [(INFO, ''Successfully converted: {output_path}'')],
      w)"
  using assms by (simp add: check_output_def get_file_size_def py_truediv_def Let_def)




text \<open>
  \<^bold>\<open>Claim C9.\<close> Take a call of \<^verbatim>\<open>convert_video\<close> in which the input is valid, the probe and
  its duration are read, the encoder returns 0 and the output file exists with a readable
  size. The size ratio divides the output size by the input size without a test: for an
  input of size 0 the division raises \<^verbatim>\<open>ZeroDivisionError\<close> and so does \<^verbatim>\<open>convert_video\<close>,
  which returns no boolean; for an input of positive size the division has a value and
  \<^verbatim>\<open>convert_video\<close> returns \<^verbatim>\<open>True\<close>.
\<close>

theorem size_ratio_division_unguarded:
  assumes "fst (validate_input_file cfg w input_path)"
    and "(case output_path of
            None \<Rightarrow> generate_output_path cfg e w input_path None
          | Some p \<Rightarrow> Inr (p, w)) = Inr (out, w1)"
    and "ffprobe w1 input_path = Inr pd"
    and "get_video_duration e pd = Inr duration"
    and "getsize w1 input_path = Inr input_size"
    and "run_encoder e
           ([''ffmpeg'', ''-i'', input_path] @ video_arguments cfg self
            @ stream_arguments cfg (fst (get_streams_info pd)) @ [out]) w1 = (run, w2)"
    and "outcome run = Inr 0"
    and "path_exists w2 out"
    and "getsize w2 out = Inr output_size"
  shows "(input_size = 0 \<longrightarrow>
            py_truediv output_size input_size = Inl ZeroDivisionError
            \<and> fst (convert_video cfg e self w input_path output_path) = Inl ZeroDivisionError)
       \<and> (0 < input_size \<longrightarrow>
            py_truediv output_size input_size =
              Inr (real_of_int output_size / real_of_int input_size)
            \<and> fst (convert_video cfg e self w input_path output_path) = Inr True)"
proof -
  from convert_video_reaches_check [OF assms(1-7)] obtain lg where
    c: "convert_video cfg e self w input_path output_path =
          check_output e w2 out duration input_size lg" by (rule exE)
  show ?thesis
  proof (intro conjI impI)
    assume "input_size = 0"
    then show "py_truediv output_size input_size = Inl ZeroDivisionError"
      by (simp add: py_truediv_def)
  next
    assume "input_size = 0"
    with check_output_zero [OF assms(8,9)] c
    show "fst (convert_video cfg e self w input_path output_path) = Inl ZeroDivisionError"
      by simp
  next
    assume "0 < input_size"
    then show "py_truediv output_size input_size =
        Inr (real_of_int output_size / real_of_int input_size)"
      by (simp add: py_truediv_def)
  next
    assume "0 < input_size"
    then have "input_size \<noteq> 0" by simp
    from check_output_nonzero [OF assms(8,9) this] c
    show "fst (convert_video cfg e self w input_path output_path) = Inr True"
      by simp
  qed
qed



lemma sample_validate: "fst (validate_input_file default_config sample_world ''in.mkv'')"
  by (simp add: validate_input_file_def sample_world_def default_config_def path_suffix_def
      path_name_def lower_def lower_char_def Let_def)

lemma sample_duration:
  "get_video_duration sample_env (sample_probe ''130.0'') = Inr (Some 130)"
  "get_video_duration sample_env (sample_probe ''128.5'') = Inr (Some 128.5)"
  by (simp_all add: get_video_duration_def sample_env_def sample_probe_def)


theorem size_ratio_division_unguarded_witness:
  "fst (convert_video default_config sample_env (VideoConverter default_config None None)
          (sample_world\<lparr>getsize := (\<lambda>p. if p = ''in.mkv'' then Inr 0 else Inr 400)\<rparr>)
          ''in.mkv'' (Some ''out.mp4'')) = Inl ZeroDivisionError
   \<and> fst (convert_video default_config sample_env (VideoConverter default_config None None)
          sample_world ''in.mkv'' (Some ''out.mp4'')) = Inr True"
proof -
  let ?self = "VideoConverter default_config None None"
  let ?w0 = "sample_world\<lparr>getsize := (\<lambda>p. if p = ''in.mkv'' then Inr 0 else Inr 400)\<rparr>"
  let ?run = "\<lparr> out_lines = [(''frame=  123 fps= 45 time=00:01:05.12 ...'', 3 :: real)],
                  outcome = Inr 0 :: py_error + int \<rparr>"
  have v0: "fst (validate_input_file default_config ?w0 ''in.mkv'')"
    by (simp add: validate_input_file_def sample_world_def default_config_def path_suffix_def
        path_name_def lower_def lower_char_def Let_def)
  have o: "(case Some ''out.mp4'' of
              None \<Rightarrow> generate_output_path default_config sample_env w ''in.mkv'' None
            | Some p \<Rightarrow> Inr (p, w)) = Inr (''out.mp4'', w)" for w
    by simp
  have p: "ffprobe sample_world ''in.mkv'' = Inr (sample_probe ''130.0'')"
    "ffprobe ?w0 ''in.mkv'' = Inr (sample_probe ''130.0'')"
    by (simp_all add: sample_world_def)
  have s: "getsize sample_world ''in.mkv'' = Inr 1000" "getsize ?w0 ''in.mkv'' = Inr 0"
    by (simp_all add: sample_world_def)
  have r: "run_encoder sample_env
           ([''ffmpeg'', ''-i'', ''in.mkv''] @ video_arguments default_config ?self
            @ stream_arguments default_config (fst (get_streams_info (sample_probe ''130.0'')))
            @ [''out.mp4'']) w = (?run, w)" for w
    by (simp add: sample_env_def)
  have c: "outcome ?run = Inr 0" by simp
  have x: "path_exists sample_world ''out.mp4''" "path_exists ?w0 ''out.mp4''"
    by (simp_all add: sample_world_def)
  have t: "getsize sample_world ''out.mp4'' = Inr 400" "getsize ?w0 ''out.mp4'' = Inr 400"
    by (simp_all add: sample_world_def)
  from size_ratio_division_unguarded
    [OF v0 o p(2) sample_duration(1) s(2) r c x(2) t(2), THEN conjunct1]
  have a: "fst (convert_video default_config sample_env ?self ?w0 ''in.mkv'' (Some ''out.mp4''))
      = Inl ZeroDivisionError" by simp
  from size_ratio_division_unguarded
    [OF sample_validate o p(1) sample_duration(1) s(1) r c x(1) t(1), THEN conjunct2]
  have b: "fst (convert_video default_config sample_env ?self sample_world ''in.mkv''
      (Some ''out.mp4'')) = Inr True" by simp
  from a b show ?thesis by (rule conjI)
qed


section \<open>Batch conversion\<close>

lemma split_slash_nonempty: "split_slash s \<noteq> []"
  by (induction s) auto

lemma split_slash_no_slash: "CHR ''/'' \<notin> set n \<Longrightarrow> split_slash n = [n]"
  by (induction n) auto

lemma split_slash_append:
  "split_slash (xs @ CHR ''/'' # ys) = split_slash xs @ split_slash ys"
proof (induction xs)
  case Nil
  show ?case by simp
next
  case (Cons c xs)
  then show ?case
    using split_slash_nonempty [of xs] by (cases "split_slash xs") auto
qed

lemma path_name_plain:
  assumes "CHR ''/'' \<notin> set n" "n \<noteq> ''''" "n \<noteq> ''.''"
  shows "path_name n = n"
  using assms by (simp add: path_name_def split_slash_no_slash)

lemma path_name_after_slash:
  assumes "CHR ''/'' \<notin> set n" "n \<noteq> ''''" "n \<noteq> ''.''"
  shows "path_name (d @ CHR ''/'' # n) = n"
  using assms by (simp add: path_name_def split_slash_append split_slash_no_slash)

lemma path_name_join:
  assumes "CHR ''/'' \<notin> set n" "n \<noteq> ''''" "n \<noteq> ''.''"
  shows "path_name (os_path_join d n) = n"
proof -
  from assms(1,2) have ns: "\<not> startswith n ''/''"
    by (cases n) (auto simp: startswith_def)
  show ?thesis
  proof (cases "d = ''''")
    case True
    with ns show ?thesis by (simp add: os_path_join_def path_name_plain [OF assms])
  next
    case False
    show ?thesis
    proof (cases "last d = CHR ''/''")
      case True
      with False have "d = butlast d @ ''/''"
        by (metis append_butlast_last_id)
      then have "d @ n = butlast d @ CHR ''/'' # n"
        by (metis append.assoc append_Cons append_Nil)
      then have "path_name (d @ n) = n"
        by (simp only: path_name_after_slash [OF assms])
      moreover from True ns have "os_path_join d n = d @ n"
        by (simp add: os_path_join_def)
      ultimately show ?thesis by simp
    next
      case l: False
      with False ns show ?thesis
        by (simp add: os_path_join_def path_name_after_slash [OF assms])
    qed
  qed
qed

lemma path_stem_movie: "path_stem (os_path_join d ''movie.mkv'') = ''movie''"
proof -
  have "path_name (os_path_join d ''movie.mkv'') = ''movie.mkv''"
    by (rule path_name_join) simp_all
  then show ?thesis by (simp add: path_stem_def path_suffix_def)
qed


lemma check_output_log:
  "\<exists>t. fst (snd (check_output e w out d n lg)) = lg @ t"
  unfolding check_output_def Let_def
  by (auto split: sum.splits)

lemma run_conversion_log:
  "\<exists>t. fst (snd (run_conversion e w cmd out d n lg)) = lg @ t"
proof -
  obtain run w' where r: "run_encoder e cmd w = (run, w')" by (cases "run_encoder e cmd w")
  let ?lg1 = "lg @ snd (encode_loop d (out_lines run) (0, []))"
  from check_output_log [of e w' out d n ?lg1] obtain t where
    "fst (snd (check_output e w' out d n ?lg1)) = lg @ snd (encode_loop d (out_lines run) (0, [])) @ t"
    by auto
  then show ?thesis
    unfolding run_conversion_def r Let_def prod.case
    by (auto split: sum.splits)
qed

lemma convert_video_log:
  "\<exists>t. fst (snd (convert_video cfg e self w input_path output_path)) =
         (INFO, ''Starting conversion: {input_path}'') # t"
proof -
  have rc: "\<exists>t. fst (snd (run_conversion e w1 cmd out d n
      ((INFO, ''Starting conversion: {input_path}'') # lg))) =
         (INFO, ''Starting conversion: {input_path}'') # t" for w1 cmd out d n lg
    using run_conversion_log [of e w1 cmd out d n "(INFO, ''Starting conversion: {input_path}'') # lg"]
    by auto
  show ?thesis
    unfolding convert_video_def Let_def
    by (auto split: prod.splits sum.splits bool.splits py_error.splits simp: rc)
qed

text \<open>
  \<^bold>\<open>Claim C7.\<close> Let \<^verbatim>\<open>skip_existing\<close> be set, let the supported files of the input directory
  be \<^verbatim>\<open>movie.mkv\<close> alone, and let \<^verbatim>\<open>movie_converted.mp4\<close> exist in the output directory (the
  given one, or the configured one when none is given). Then \<^verbatim>\<open>convert_batch\<close> returns the
  statistics total 1, success 0, failed 0, skipped 1, leaves the world as the creation of
  the output directory left it, and logs exactly the records below. \<^verbatim>\<open>convert_video\<close> is not
  called: every call of it logs \<^verbatim>\<open>Starting conversion\<close> first, and the log has no such
  record.
\<close>

theorem batch_skips_existing_output:
  assumes "(case output_dir of
              Some d \<Rightarrow> if d \<noteq> '''' then makedirs e d w else Inr w
            | None \<Rightarrow> Inr w) = Inr w1"
    and "list_files_in_directory default_config w1 input_dir None =
           Inr [os_path_join input_dir ''movie.mkv'']"
    and "path_exists w1
           (os_path_join (case output_dir of None \<Rightarrow> ''output'' | Some d \<Rightarrow> d)
              ''movie_converted.mp4'')"
  shows "convert_batch default_config e self w input_dir output_dir True =
           (Inr \<lparr>total = 1, success = 0, failed = 0, skipped = 1\<rparr>,
            [(INFO, ''Starting batch conversion from: {input_dir}''),
             (INFO, ''Found {len(files)} file(s) to process''),
             (INFO, CHR 0x0A # ''{'='*60}''),
             (INFO, ''Processing file {idx}/{len(files)}: {Path(file_path).name}''),
             (INFO, ''{'='*60}''),
             (INFO, ''Skipping (already converted): {file_path}''),
             (INFO, CHR 0x0A # ''{'='*60}''),
             (INFO, ''BATCH CONVERSION SUMMARY''),
             (INFO, ''{'='*60}''),
             (INFO, ''Total files: {stats['total']}''),
             (INFO, ''Successfully converted: {stats['success']}''),
             (INFO, ''Failed: {stats['failed']}''),
             (INFO, ''Skipped: {stats['skipped']}''),
             (INFO, ''{'='*60}'')],
            w1)
     \<and> (INFO, ''Starting conversion: {input_path}'')
           \<notin> set (fst (snd (convert_batch default_config e self w input_dir output_dir True)))
     \<and> (\<forall>cfg' e' self' w' p q.
           hd (fst (snd (convert_video cfg' e' self' w' p q))) =
             (INFO, ''Starting conversion: {input_path}''))"
proof -
  let ?f = "os_path_join input_dir ''movie.mkv''"
  have a: "is_already_converted default_config w1 ?f output_dir"
    using assms(3)
    by (cases output_dir)
      (simp_all add: is_already_converted_def path_stem_movie default_config_def Let_def)
  have b: "convert_batch default_config e self w input_dir output_dir True =
           (Inr \<lparr>total = 1, success = 0, failed = 0, skipped = 1\<rparr>,
            [(INFO, ''Starting batch conversion from: {input_dir}''),
             (INFO, ''Found {len(files)} file(s) to process''),
             (INFO, CHR 0x0A # ''{'='*60}''),
             (INFO, ''Processing file {idx}/{len(files)}: {Path(file_path).name}''),
             (INFO, ''{'='*60}''),
             (INFO, ''Skipping (already converted): {file_path}''),
             (INFO, CHR 0x0A # ''{'='*60}''),
             (INFO, ''BATCH CONVERSION SUMMARY''),
             (INFO, ''{'='*60}''),
             (INFO, ''Total files: {stats['total']}''),
             (INFO, ''Successfully converted: {stats['success']}''),
             (INFO, ''Failed: {stats['failed']}''),
             (INFO, ''Skipped: {stats['skipped']}''),
             (INFO, ''{'='*60}'')],
            w1)"
    unfolding convert_batch_def
    by (simp add: Let_def assms(1) assms(2) a)
  have c: "hd (fst (snd (convert_video cfg' e' self' w' p q))) =
             (INFO, ''Starting conversion: {input_path}'')" for cfg' e' self' w' p q
    using convert_video_log [of cfg' e' self' w' p q] by auto
  show ?thesis
  proof (intro conjI allI)
    show "(INFO, ''Starting conversion: {input_path}'')
           \<notin> set (fst (snd (convert_batch default_config e self w input_dir output_dir True)))"
      unfolding b by simp
  qed (rule b, rule c)
qed

theorem batch_skips_existing_output_witness:
  "list_files_in_directory default_config batch_world ''input'' None =
     Inr [os_path_join ''input'' ''movie.mkv'']
   \<and> path_exists batch_world (os_path_join ''output'' ''movie_converted.mp4'')
   \<and> fst (convert_batch default_config sample_env (VideoConverter default_config None None)
            batch_world ''input'' (Some ''output'') True) =
       Inr \<lparr>total = 1, success = 0, failed = 0, skipped = 1\<rparr>
   \<and> (INFO, ''Starting conversion: {input_path}'')
         \<notin> set (fst (snd (convert_batch default_config sample_env
                               (VideoConverter default_config None None)
                               batch_world ''input'' (Some ''output'') True)))"
proof -
  let ?self = "VideoConverter default_config None None"
  have m: "(case Some ''output'' of
              Some d \<Rightarrow> if d \<noteq> '''' then makedirs sample_env d batch_world else Inr batch_world
            | None \<Rightarrow> Inr batch_world) = Inr batch_world"
    by (simp add: sample_env_def)
  have l: "list_files_in_directory default_config batch_world ''input'' None =
     Inr [os_path_join ''input'' ''movie.mkv'']"
    by (simp add: list_files_in_directory_def batch_world_def default_config_def
        os_path_join_def startswith_def path_suffix_def path_name_def lower_def lower_char_def
        Let_def)
  have x: "path_exists batch_world
           (os_path_join (case Some ''output'' of None \<Rightarrow> ''output'' | Some d \<Rightarrow> d)
              ''movie_converted.mp4'')"
    by (simp add: batch_world_def os_path_join_def startswith_def)
  note t = batch_skips_existing_output [OF m l x, of ?self]
  from t have "fst (convert_batch default_config sample_env ?self
            batch_world ''input'' (Some ''output'') True) =
       Inr \<lparr>total = 1, success = 0, failed = 0, skipped = 1\<rparr>"
    by simp
  moreover from t have "(INFO, ''Starting conversion: {input_path}'')
         \<notin> set (fst (snd (convert_batch default_config sample_env ?self
                               batch_world ''input'' (Some ''output'') True)))"
    by (elim conjE)
  moreover from x have "path_exists batch_world (os_path_join ''output'' ''movie_converted.mp4'')"
    by simp
  ultimately show ?thesis using l by (intro conjI)
qed

end
